theory Spec2Isabelle
  imports Complex_Main "HOL-Library.List_Lexorder" "HOL-Library.Char_ord"
    "HOL-Library.Sublist" "HOL-Library.AList"
begin

section \<open>Python values, dictionaries and numpy arrays\<close>

text \<open>
  The module \<^verbatim>\<open>enterprise/signals/gp_signals.py\<close> computes with numpy arrays of
  double-precision floats. Array elements are modelled as \<^typ>\<open>real\<close>: the theorems
  below are about which arithmetic expression the code evaluates, not about rounding.
  Every exception the code can raise is a value \<open>Inl e\<close> of the result type. Where
  numpy would produce a non-finite float (a division by zero, the logarithm of a
  non-positive number) or compute with an array of three or more dimensions, the result
  is \<open>Inl (Unmodelled _)\<close>: the embedding does not represent that value, and no theorem
  below speaks about it.
\<close>

datatype error =
    ValueError string
  | IndexError
  | KeyError
  | TypeError
  | AttributeError
  | NotImplementedError string
  | Unmodelled string

text \<open>
  A Python \<^verbatim>\<open>dict\<close> is an association list in insertion order; lookup finds the
  entry of a key, \<^verbatim>\<open>d[k] = v\<close> and \<^verbatim>\<open>d.update({k: v})\<close> are \<^const>\<open>AList.update\<close>
  (replace in place, or append).
\<close>

type_synonym ('k, 'v) dict = "('k \<times> 'v) list"

definition dict_keys :: "('k, 'v) dict \<Rightarrow> 'k list" where
  "dict_keys d = remdups (map fst d)"

definition dict_get :: "('k, 'v) dict \<Rightarrow> 'k \<Rightarrow> error + 'v" where
  "dict_get d k = (case map_of d k of None \<Rightarrow> Inl KeyError | Some v \<Rightarrow> Inr v)"

definition dict_values :: "('k, 'v) dict \<Rightarrow> 'v list" where
  "dict_values d = map snd d"

fun mapM :: "('a \<Rightarrow> error + 'b) \<Rightarrow> 'a list \<Rightarrow> error + 'b list" where
  "mapM f [] = Inr []"
| "mapM f (x # xs) =
     (case f x of
        Inl e \<Rightarrow> Inl e
      | Inr y \<Rightarrow> (case mapM f xs of Inl e \<Rightarrow> Inl e | Inr ys \<Rightarrow> Inr (y # ys)))"

text \<open>
  A value held by a parameter or found in a \<^verbatim>\<open>params\<close> mapping: an int, a float, a
  1-D array, or \<^verbatim>\<open>None\<close> (a parameter whose value was never set).
\<close>

datatype pyval = PNone | PInt int | PFloat real | PArray "real list"

type_synonym params = "string \<rightharpoonup> pyval"

text \<open>A 2-D array carries its shape; \<open>rows\<close> holds \<open>nrows\<close> lists of \<open>ncols\<close> entries.\<close>

datatype matrix = Matrix (nrows: nat) (ncols: nat) (rows: "real list list")

definition wf_matrix :: "matrix \<Rightarrow> bool" where
  "wf_matrix M = (length (rows M) = nrows M \<and> list_all (\<lambda>r. length r = ncols M) (rows M))"

definition np_zeros2 :: "nat \<Rightarrow> nat \<Rightarrow> matrix" where
  "np_zeros2 r c = Matrix r c (replicate r (replicate c 0))"

definition np_zeros :: "nat \<Rightarrow> real list" where
  "np_zeros n = replicate n 0"

text \<open>A \<^verbatim>\<open>slice(start, stop)\<close> with non-negative bounds and step 1.\<close>

type_synonym slice = "nat \<times> nat"

definition in_slice :: "nat \<Rightarrow> slice \<Rightarrow> bool" where
  "in_slice j s = (fst s \<le> j \<and> j < snd s)"

text \<open>
  numpy broadcasting of a 2-D value to a target shape \<open>(t, w)\<close>: each axis must have the
  target's length or length 1.
\<close>

definition broadcast_to2 :: "matrix \<Rightarrow> nat \<Rightarrow> nat \<Rightarrow> error + real list list" where
  "broadcast_to2 F t w =
     (if (nrows F = t \<or> nrows F = 1) \<and> (ncols F = w \<or> ncols F = 1) then
        (let rs = (if nrows F = t then rows F else replicate t (hd (rows F)))
         in Inr (map (\<lambda>r. if ncols F = w then r else replicate w (hd r)) rs))
      else Inl (ValueError ''shape mismatch''))"

text \<open>
  Writing the rows \<open>fs\<close> into the rows of \<open>rs\<close> that the mask selects, at columns
  \<open>a ..< a + length f\<close>.
\<close>

fun set_block :: "bool list \<Rightarrow> real list list \<Rightarrow> real list list \<Rightarrow> nat \<Rightarrow> real list list" where
  "set_block (m # ms) (r # rs) fs a =
     (if m then
        (case fs of
           [] \<Rightarrow> r # rs
         | f # fs' \<Rightarrow> (take a r @ f @ drop (a + length f) r) # set_block ms rs fs' a)
      else r # set_block ms rs fs a)"
| "set_block ms rs fs a = rs"

text \<open>
  \<^verbatim>\<open>B[mask, a:b] = F\<close>: the boolean index must have the length of axis 0; the slice is
  clipped to the number of columns; the value is broadcast to the selected block.
\<close>

definition np_set_masked_cols :: "matrix \<Rightarrow> bool list \<Rightarrow> slice \<Rightarrow> matrix \<Rightarrow> error + matrix" where
  "np_set_masked_cols B msk s F =
     (if length msk \<noteq> nrows B then Inl IndexError
      else
        (let a = min (fst s) (ncols B);
             b = max a (min (snd s) (ncols B));
             t = length (filter id msk)
         in case broadcast_to2 F t (b - a) of
              Inl e \<Rightarrow> Inl e
            | Inr fs \<Rightarrow> Inr (Matrix (nrows B) (ncols B) (set_block msk (rows B) fs a))))"

subsection \<open>Arrays of any dimension and the numpy operations the module uses\<close>

text \<open>
  A numpy array is a scalar (0-d), a vector, a matrix, or an array of three or more
  dimensions, of which only the shape matters here.
\<close>

datatype ndarray = Array0 real | Array1 "real list" | Array2 matrix | ArrayN "nat list" "real list"

fun ndim :: "ndarray \<Rightarrow> nat" where
  "ndim (Array0 a) = 0"
| "ndim (Array1 v) = 1"
| "ndim (Array2 M) = 2"
| "ndim (ArrayN sh d) = length sh"

fun as_matrix :: "ndarray \<Rightarrow> matrix option" where
  "as_matrix (Array0 a) = Some (Matrix 1 1 [[a]])"
| "as_matrix (Array1 v) = Some (Matrix 1 (length v) [v])"
| "as_matrix (Array2 M) = Some M"
| "as_matrix (ArrayN sh d) = None"

definition of_rows :: "nat \<Rightarrow> nat \<Rightarrow> nat \<Rightarrow> real list list \<Rightarrow> ndarray" where
  "of_rows d r c rs =
     (if d = 0 then Array0 (hd (hd rs)) else if d = 1 then Array1 (hd rs)
      else Array2 (Matrix r c rs))"

definition bdim :: "nat \<Rightarrow> nat \<Rightarrow> nat" where
  "bdim m n = (if m = 1 then n else m)"

text \<open>An elementwise binary operation with broadcasting (\<^verbatim>\<open>*\<close>, \<^verbatim>\<open>-\<close>, \<^verbatim>\<open>/\<close> on arrays).\<close>

definition np_binop :: "(real \<Rightarrow> real \<Rightarrow> real) \<Rightarrow> ndarray \<Rightarrow> ndarray \<Rightarrow> error + ndarray" where
  "np_binop f A B =
     (case (as_matrix A, as_matrix B) of
        (Some X, Some Y) \<Rightarrow>
          (let r = bdim (nrows X) (nrows Y); c = bdim (ncols X) (ncols Y)
           in case (broadcast_to2 X r c, broadcast_to2 Y r c) of
                (Inr xs, Inr ys) \<Rightarrow>
                  Inr (of_rows (max (ndim A) (ndim B)) r c (map2 (map2 f) xs ys))
              | _ \<Rightarrow> Inl (ValueError ''operands could not be broadcast together''))
      | _ \<Rightarrow> Inl (Unmodelled ''more than two dimensions''))"

fun elements :: "ndarray \<Rightarrow> real list" where
  "elements (Array0 a) = [a]"
| "elements (Array1 v) = v"
| "elements (Array2 M) = concat (rows M)"
| "elements (ArrayN sh d) = d"

definition np_multiply :: "ndarray \<Rightarrow> ndarray \<Rightarrow> error + ndarray" where
  "np_multiply A B = np_binop (*) A B"

definition np_subtract :: "ndarray \<Rightarrow> ndarray \<Rightarrow> error + ndarray" where
  "np_subtract A B = np_binop (-) A B"

definition np_divide :: "ndarray \<Rightarrow> ndarray \<Rightarrow> error + ndarray" where
  "np_divide A B =
     (if 0 \<in> set (elements B) then Inl (Unmodelled ''division by zero'')
      else np_binop (/) A B)"

fun map_array :: "(real \<Rightarrow> real) \<Rightarrow> ndarray \<Rightarrow> ndarray" where
  "map_array f (Array0 a) = Array0 (f a)"
| "map_array f (Array1 v) = Array1 (map f v)"
| "map_array f (Array2 M) = Array2 (Matrix (nrows M) (ncols M) (map (map f) (rows M)))"
| "map_array f (ArrayN sh d) = ArrayN sh (map f d)"

definition np_log :: "ndarray \<Rightarrow> error + ndarray" where
  "np_log A =
     (if list_all (\<lambda>x. 0 < x) (elements A) then Inr (map_array ln A)
      else Inl (Unmodelled ''logarithm of a non-positive number''))"

definition np_sum :: "ndarray \<Rightarrow> real" where
  "np_sum A = sum_list (elements A)"


definition dotv :: "real list \<Rightarrow> real list \<Rightarrow> real" where
  "dotv u v = sum_list (map2 (*) u v)"

definition cols :: "matrix \<Rightarrow> real list list" where
  "cols M = map (\<lambda>j. map (\<lambda>r. r ! j) (rows M)) [0..<ncols M]"

definition shape_error :: error where
  "shape_error = ValueError ''shapes not aligned''"

text \<open>\<^verbatim>\<open>np.dot(A, B)\<close> for arrays of at most two dimensions.\<close>

fun np_dot :: "ndarray \<Rightarrow> ndarray \<Rightarrow> error + ndarray" where
  "np_dot (ArrayN sh d) B = Inl (Unmodelled ''more than two dimensions'')"
| "np_dot A (ArrayN sh d) = Inl (Unmodelled ''more than two dimensions'')"
| "np_dot (Array0 a) B = np_multiply (Array0 a) B"
| "np_dot A (Array0 b) = np_multiply A (Array0 b)"
| "np_dot (Array1 u) (Array1 v) =
     (if length u = length v then Inr (Array0 (dotv u v)) else Inl shape_error)"
| "np_dot (Array2 M) (Array1 v) =
     (if ncols M = length v then Inr (Array1 (map (\<lambda>r. dotv r v) (rows M)))
      else Inl shape_error)"
| "np_dot (Array1 u) (Array2 M) =
     (if length u = nrows M then Inr (Array1 (map (dotv u) (cols M))) else Inl shape_error)"
| "np_dot (Array2 A) (Array2 B) =
     (if ncols A = nrows B then
        Inr (Array2 (Matrix (nrows A) (ncols B) (map (\<lambda>r. map (dotv r) (cols B)) (rows A))))
      else Inl shape_error)"

text \<open>\<^verbatim>\<open>np.tensordot(A, B, (0, 0))\<close>: the first axes of both arrays are summed over.\<close>

fun np_tensordot00 :: "ndarray \<Rightarrow> ndarray \<Rightarrow> error + ndarray" where
  "np_tensordot00 (ArrayN sh d) B = Inl (Unmodelled ''more than two dimensions'')"
| "np_tensordot00 A (ArrayN sh d) = Inl (Unmodelled ''more than two dimensions'')"
| "np_tensordot00 (Array0 a) B = Inl IndexError"
| "np_tensordot00 A (Array0 b) = Inl IndexError"
| "np_tensordot00 (Array1 u) (Array1 v) =
     (if length u = length v then Inr (Array0 (dotv u v)) else Inl shape_error)"
| "np_tensordot00 (Array2 A) (Array1 v) =
     (if nrows A = length v then Inr (Array1 (map (\<lambda>ca. dotv ca v) (cols A)))
      else Inl shape_error)"
| "np_tensordot00 (Array1 u) (Array2 B) =
     (if length u = nrows B then Inr (Array1 (map (dotv u) (cols B))) else Inl shape_error)"
| "np_tensordot00 (Array2 A) (Array2 B) =
     (if nrows A = nrows B then
        Inr (Array2 (Matrix (ncols A) (ncols B) (map (\<lambda>ca. map (dotv ca) (cols B)) (cols A))))
      else Inl shape_error)"

text \<open>
  \<^verbatim>\<open>c[a:b] = v\<close> on a 1-D array: the slice is clipped to the array, a scalar or a
  one-element array is broadcast over it, any other length must be the slice's.
\<close>

definition np_set_slice :: "real list \<Rightarrow> slice \<Rightarrow> pyval \<Rightarrow> error + real list" where
  "np_set_slice c s v =
     (let a = min (fst s) (length c);
          b = max a (min (snd s) (length c));
          w = b - a
      in case v of
           PNone \<Rightarrow> Inl TypeError
         | PInt n \<Rightarrow> Inr (take a c @ replicate w (real_of_int n) @ drop b c)
         | PFloat x \<Rightarrow> Inr (take a c @ replicate w x @ drop b c)
         | PArray xs \<Rightarrow>
             (if length xs = w then Inr (take a c @ xs @ drop b c)
              else if length xs = 1 then Inr (take a c @ replicate w (hd xs) @ drop b c)
              else Inl (ValueError ''could not broadcast input array'')))"

definition np_get_slice :: "real list \<Rightarrow> slice \<Rightarrow> real list" where
  "np_get_slice c s = take (snd s - fst s) (drop (fst s) c)"

section \<open>Parameters, pulsars and function objects\<close>

text \<open>
  The collaborators of the module (the parameter classes, the selection, the basis and
  prior function objects, the pulsar) are consumed through the attributes the module
  reads; each is a record of those attributes.
\<close>

record param =
  par_name :: string
  par_size :: nat
  par_value :: pyval

text \<open>One entry of \<^verbatim>\<open>psr.dmx\<close>: a DMX parameter with its interval (in days).\<close>

record dmx_bin =
  dmx_fit :: bool
  dmx_DMX :: real
  dmx_DMXR1 :: real
  dmx_DMXR2 :: real

record pulsar =
  psr_name :: string
  psr_pos :: "real list"
  psr_toas :: "real list"
  psr_stoas :: "real list"
  psr_freqs :: "real list"
  psr_fitpars :: "string list"
  psr_dm :: real
  psr_dmx :: "(string, dmx_bin) dict"
  psr_flags :: "(string, real list) dict"

record basis_function =
  bf_call :: "params \<Rightarrow> bool list \<Rightarrow> matrix \<times> real list"
  bf_params :: "(string, param) dict"

record prior_function =
  pf_call :: "real list \<Rightarrow> params \<Rightarrow> nat option \<Rightarrow> ndarray"
  pf_params :: "(string, param) dict"

definition py_join :: "string \<Rightarrow> string list \<Rightarrow> string" where
  "py_join sep xs = (case xs of [] \<Rightarrow> [] | x # r \<Rightarrow> foldl (\<lambda>acc y. acc @ sep @ y) x r)"

definition KernelMatrix :: "nat \<Rightarrow> ndarray" where
  \<comment> \<open>Modelled from the spec: the KernelMatrix class (enterprise.signals.utils) is not part
      of this module; constructed from a size it is a diagonal prior of that dimension.\<close>
  "KernelMatrix n = Array1 (replicate n 0)"

section \<open>BasisGP\<close>

record BasisGP =
  self_keys :: "string list"
  self_masks :: "bool list list"
  self_prior :: "(string, prior_function) dict"
  self_bases :: "(string, basis_function) dict"
  self_params :: "(string, param) dict"
  self_coefficients :: "(string, param) dict"
  self_basis :: matrix
  self_labels :: "(string, real list) dict"
  self_phi :: ndarray
  self_slices :: "(string, slice) dict"

text \<open>
  \<^verbatim>\<open>_construct_basis\<close>, first loop: call each key's basis function on its mask and store
  the matrix and the labels under the key.
\<close>

fun call_bases :: "(string, basis_function) dict \<Rightarrow> params \<Rightarrow> (string \<times> bool list) list \<Rightarrow>
    (string, matrix) dict \<Rightarrow> (string, real list) dict \<Rightarrow>
    error + (string, matrix) dict \<times> (string, real list) dict" where
  "call_bases bases ps [] basis labels = Inr (basis, labels)"
| "call_bases bases ps ((key, msk) # kms) basis labels =
     (case dict_get bases key of
        Inl e \<Rightarrow> Inl e
      | Inr bf \<Rightarrow>
          (let (F, l) = bf_call bf ps msk
           in call_bases bases ps kms (AList.update key F basis) (AList.update key l labels)))"

text \<open>
  Second loop: copy each block into the combined matrix and record its column slice;
  \<open>nctot\<close> is the running column offset.
\<close>

fun fill_basis :: "(string, matrix) dict \<Rightarrow> (string \<times> bool list) list \<Rightarrow> matrix \<Rightarrow>
    (string, slice) dict \<Rightarrow> nat \<Rightarrow> error + matrix \<times> (string, slice) dict" where
  "fill_basis basis [] B slices nctot = Inr (B, slices)"
| "fill_basis basis ((key, msk) # kms) B slices nctot =
     (case dict_get basis key of
        Inl e \<Rightarrow> Inl e
      | Inr Fmat \<Rightarrow>
          (let nn = ncols Fmat
           in case np_set_masked_cols B msk (nctot, nn + nctot) Fmat of
                Inl e \<Rightarrow> Inl e
              | Inr B' \<Rightarrow>
                  fill_basis basis kms B' (AList.update key (nctot, nn + nctot) slices)
                    (nctot + nn)))"

definition construct_basis :: "BasisGP \<Rightarrow> params \<Rightarrow> error + BasisGP" where
  "construct_basis self ps =
     (let kms = zip (self_keys self) (self_masks self)
      in case call_bases (self_bases self) ps kms [] [] of
           Inl e \<Rightarrow> Inl e
         | Inr (basis, labels) \<Rightarrow>
             (let nc = sum_list (map ncols (dict_values basis))
              in case self_masks self of
                   [] \<Rightarrow> Inl IndexError
                 | m0 # _ \<Rightarrow>
                     (case fill_basis basis kms (np_zeros2 (length m0) nc) [] 0 of
                        Inl e \<Rightarrow> Inl e
                      | Inr (B, slices) \<Rightarrow>
                          Inr (self\<lparr>self_basis := B, self_labels := labels,
                                   self_phi := KernelMatrix nc, self_slices := slices\<rparr>))))"

text \<open>The parameter a \<^verbatim>\<open>GPCoefficients(logprior, size)(name)\<close> call creates.\<close>

definition GPCoefficients :: "nat \<Rightarrow> string \<Rightarrow> param" where
  \<comment> \<open>Modelled from the spec: the parameter classes are not part of this module; a
      coefficient parameter has a stable name, a size and a current value, unset at first.\<close>
  "GPCoefficients sz name = \<lparr>par_name = name, par_size = sz, par_value = PNone\<rparr>"

fun add_params :: "(string, param) dict \<Rightarrow> param list \<Rightarrow> (string, param) dict" where
  "add_params d [] = d"
| "add_params d (par # pars) = add_params (AList.update (par_name par) par d) pars"

text \<open>\<^verbatim>\<open>_do_selection\<close>, first loop: one prior and one basis function object per key.\<close>

fun bind_functions :: "pulsar \<Rightarrow> string \<Rightarrow> (string \<Rightarrow> pulsar \<Rightarrow> prior_function) \<Rightarrow>
    (string \<Rightarrow> pulsar \<Rightarrow> basis_function) \<Rightarrow> (string \<times> bool list) list \<Rightarrow> BasisGP \<Rightarrow> BasisGP" where
  "bind_functions psr name priorfn basisfn [] self = self"
| "bind_functions psr name priorfn basisfn ((key, msk) # kms) self =
     (let pname = py_join ''_'' (filter (\<lambda>n. n \<noteq> []) [psr_name psr, name, key]);
          pr = priorfn pname psr;
          bf = basisfn pname psr
      in bind_functions psr name priorfn basisfn kms
           (self\<lparr>self_prior := AList.update key pr (self_prior self),
                 self_bases := AList.update key bf (self_bases self),
                 self_params := add_params (self_params self)
                   (dict_values (pf_params pr) @ dict_values (bf_params bf))\<rparr>))"

text \<open>
  Second loop (coefficient mode): one coefficient parameter per key, of the slice's width.
  The log-prior function object handed to \<^verbatim>\<open>GPCoefficients\<close> is
  \<^verbatim>\<open>_get_coefficient_logprior\<close> below with the key fixed; a parameter record does not
  store it.
\<close>

fun make_coefficients :: "pulsar \<Rightarrow> string \<Rightarrow> string list \<Rightarrow> BasisGP \<Rightarrow> error + BasisGP" where
  "make_coefficients psr name [] self = Inr self"
| "make_coefficients psr name (key # keys) self =
     (let pname = py_join ''_'' (filter (\<lambda>n. n \<noteq> []) [psr_name psr, name, key])
      in case dict_get (self_slices self) key of
           Inl e \<Rightarrow> Inl e
         | Inr slc \<Rightarrow>
             (let sz = snd slc - fst slc;
                  cpar = GPCoefficients sz (pname @ ''_coefficients'')
              in make_coefficients psr name keys
                   (self\<lparr>self_coefficients := AList.update key cpar (self_coefficients self),
                         self_params := AList.update (par_name cpar) cpar (self_params self)\<rparr>)))"

definition do_selection :: "pulsar \<Rightarrow> string \<Rightarrow> (string \<Rightarrow> pulsar \<Rightarrow> prior_function) \<Rightarrow>
    (string \<Rightarrow> pulsar \<Rightarrow> basis_function) \<Rightarrow> bool \<Rightarrow> (pulsar \<Rightarrow> (string, bool list) dict) \<Rightarrow>
    error + BasisGP" where
  "do_selection psr name priorfn basisfn coefficients selection =
     (let sel_masks = selection psr;
          keys = sort (dict_keys sel_masks)
      in case mapM (dict_get sel_masks) keys of
           Inl e \<Rightarrow> Inl e
         | Inr masks \<Rightarrow>
             (let self0 = \<lparr>self_keys = keys, self_masks = masks, self_prior = [],
                           self_bases = [], self_params = [], self_coefficients = [],
                           self_basis = np_zeros2 0 0, self_labels = [], self_phi = Array1 [],
                           self_slices = []\<rparr>;
                  self1 = bind_functions psr name priorfn basisfn (zip keys masks) self0
              in if coefficients then
                   (case construct_basis self1 (\<lambda>_. None) of
                      Inl e \<Rightarrow> Inl e
                    | Inr self2 \<Rightarrow> make_coefficients psr name (self_keys self2) self2)
                 else Inr self1))"

text \<open>
  What \<^verbatim>\<open>_do_selection\<close> establishes and no method changes: the keys are sorted and
  distinct (they are the sorted keys of a dict), with one mask per key.
\<close>

definition instance_invariant :: "BasisGP \<Rightarrow> bool" where
  "instance_invariant self =
     (sorted (self_keys self) \<and> distinct (self_keys self) \<and>
      length (self_masks self) = length (self_keys self))"

subsection \<open>The methods of a BasisGP class\<close>

text \<open>
  The class factory defines \<^verbatim>\<open>delay_params\<close>, \<^verbatim>\<open>get_delay\<close> and \<^verbatim>\<open>get_basis\<close>
  differently for \<^verbatim>\<open>coefficients\<close> true and false; the flag is the first argument of each
  model. A method that rebuilds the basis returns the updated instance with its result.
  The decorators \<^verbatim>\<open>signal_base.cache_call\<close> only avoid recomputation and are left out.
\<close>

datatype pyres = RNone | RInt int | RArray ndarray



text \<open>The loop of \<^verbatim>\<open>get_delay\<close> over \<^verbatim>\<open>self._slices.items()\<close>.\<close>

fun assign_coefficients :: "(string, param) dict \<Rightarrow> params \<Rightarrow> (string \<times> slice) list \<Rightarrow>
    real list \<Rightarrow> error + real list" where
  "assign_coefficients coeffs ps [] c = Inr c"
| "assign_coefficients coeffs ps ((key, slc) # items) c =
     (case dict_get coeffs key of
        Inl e \<Rightarrow> Inl e
      | Inr p \<Rightarrow>
          (case np_set_slice c slc
                  (case ps (par_name p) of Some v \<Rightarrow> v | None \<Rightarrow> par_value p) of
             Inl e \<Rightarrow> Inl e
           | Inr c' \<Rightarrow> assign_coefficients coeffs ps items c'))"

definition get_delay :: "bool \<Rightarrow> BasisGP \<Rightarrow> params \<Rightarrow> error + pyres \<times> BasisGP" where
  "get_delay coefficients self ps =
     (if coefficients then
        (case construct_basis self ps of
           Inl e \<Rightarrow> Inl e
         | Inr self' \<Rightarrow>
             (case assign_coefficients (self_coefficients self') ps (self_slices self')
                     (np_zeros (ncols (self_basis self'))) of
                Inl e \<Rightarrow> Inl e
              | Inr c \<Rightarrow>
                  (case np_dot (Array2 (self_basis self')) (Array1 c) of
                     Inl e \<Rightarrow> Inl e
                   | Inr d \<Rightarrow> Inr (RArray d, self'))))
      else Inr (RInt 0, self))"

definition get_basis :: "bool \<Rightarrow> BasisGP \<Rightarrow> params \<Rightarrow> error + pyres \<times> BasisGP" where
  "get_basis coefficients self ps =
     (if coefficients then Inr (RNone, self)
      else (case construct_basis self ps of
              Inl e \<Rightarrow> Inl e
            | Inr self' \<Rightarrow> Inr (RArray (Array2 (self_basis self')), self')))"

text \<open>
  \<^verbatim>\<open>_get_coefficient_logprior\<close> (coefficient mode only). \<open>kernel_inv\<close> stands for
  \<^verbatim>\<open>KernelMatrix(phi).inv(logdet=True)\<close>, the prior's own inversion with log-determinant.
\<close>

definition shape0 :: "ndarray \<Rightarrow> error + nat" where
  "shape0 A =
     (case A of
        Array0 a \<Rightarrow> Inl IndexError
      | Array1 v \<Rightarrow> Inr (length v)
      | Array2 M \<Rightarrow> Inr (nrows M)
      | ArrayN sh d \<Rightarrow> (case sh of [] \<Rightarrow> Inl IndexError | n # _ \<Rightarrow> Inr n))"

definition get_coefficient_logprior :: "(ndarray \<Rightarrow> error + ndarray \<times> real) \<Rightarrow> BasisGP \<Rightarrow>
    string \<Rightarrow> real list \<Rightarrow> params \<Rightarrow> error + ndarray \<times> BasisGP" where
  "get_coefficient_logprior kernel_inv self key c ps =
     (case construct_basis self ps of
        Inl e \<Rightarrow> Inl e
      | Inr self' \<Rightarrow>
     (case dict_get (self_prior self') key of
        Inl e \<Rightarrow> Inl e
      | Inr pr \<Rightarrow>
     (case dict_get (self_labels self') key of
        Inl e \<Rightarrow> Inl e
      | Inr l \<Rightarrow>
     (let phi = pf_call pr l ps None
      in if ndim phi = 1 then
           (case np_multiply (Array1 c) (Array1 c) of
              Inl e \<Rightarrow> Inl e
            | Inr cc \<Rightarrow>
           (case np_divide cc phi of
              Inl e \<Rightarrow> Inl e
            | Inr q \<Rightarrow>
           (case np_log phi of
              Inl e \<Rightarrow> Inl e
            | Inr lg \<Rightarrow>
                Inr (Array0 (- 0.5 * np_sum q - 0.5 * np_sum lg
                              - 0.5 * real (length (elements phi)) * ln (2 * pi)), self'))))
         else
           (case kernel_inv phi of
              Inl e \<Rightarrow> Inl e
            | Inr (phiinv, logdet) \<Rightarrow>
           (case np_dot phiinv (Array1 c) of
              Inl e \<Rightarrow> Inl e
            | Inr pc \<Rightarrow>
           (case np_dot (Array1 c) pc of
              Inl e \<Rightarrow> Inl e
            | Inr cpc \<Rightarrow>
           (case np_multiply (Array0 (- 0.5)) cpc of
              Inl e \<Rightarrow> Inl e
            | Inr t1 \<Rightarrow>
           (case np_subtract t1 (Array0 (0.5 * logdet)) of
              Inl e \<Rightarrow> Inl e
            | Inr t2 \<Rightarrow>
           (case shape0 phi of
              Inl e \<Rightarrow> Inl e
            | Inr n \<Rightarrow>
           (case np_subtract t2 (Array0 (0.5 * real n * ln (2 * pi))) of
              Inl e \<Rightarrow> Inl e
            | Inr r \<Rightarrow> Inr (r, self'))))))))))))"

text \<open>The same densities in the specification's words, as sums over the indices.\<close>

definition diagonal_logdensity :: "real list \<Rightarrow> real list \<Rightarrow> real" where
  "diagonal_logdensity c phi =
     - (1 / 2) * (\<Sum>i < length phi. c ! i * c ! i / phi ! i)
     - (1 / 2) * (\<Sum>i < length phi. ln (phi ! i))
     - (1 / 2) * real (length phi) * ln (2 * pi)"

definition full_logdensity :: "real list \<Rightarrow> matrix \<Rightarrow> real \<Rightarrow> nat \<Rightarrow> real" where
  "full_logdensity c phiinv logdet n =
     - (1 / 2) * (\<Sum>i < length c. c ! i * (\<Sum>j < length c. rows phiinv ! i ! j * c ! j))
     - (1 / 2) * logdet
     - (1 / 2) * real n * ln (2 * pi)"

section \<open>BasisCommonGP\<close>

record orf_function =
  of_call :: "real list \<Rightarrow> real list \<Rightarrow> params \<Rightarrow> ndarray"
  of_params :: "(string, param) dict"

text \<open>A basis function of a common signal is called with \<^verbatim>\<open>params\<close>, \<^verbatim>\<open>Tspan\<close> and \<^verbatim>\<open>start_time\<close>.\<close>

record common_basis_function =
  cb_call :: "params \<Rightarrow> real option \<Rightarrow> real option \<Rightarrow> matrix \<times> real list"
  cb_params :: "(string, param) dict"

text \<open>\<^verbatim>\<open>coefficients\<close> may be false, true, or an instantiated coefficient parameter.\<close>

datatype coefficients_arg = CoefficientsFalse | CoefficientsTrue | CoefficientsParameter param

fun truthy :: "coefficients_arg \<Rightarrow> bool" where
  "truthy CoefficientsFalse = False"
| "truthy CoefficientsTrue = True"
| "truthy (CoefficientsParameter p) = True"

text \<open>
  The attributes of the class, shared by its instances: the overlap-reduction function,
  the prior, and (for the Fourier and FFT subclasses) the pooled time bounds.
\<close>

record common_class =
  cls_orf :: orf_function
  cls_prior :: prior_function
  cls_Tmin :: "real list"
  cls_Tmax :: "real list"

text \<open>
  The attributes of an instance. \<^verbatim>\<open>_basis\<close> and \<^verbatim>\<open>_labels\<close> (and \<^verbatim>\<open>_t_knots\<close> and
  \<^verbatim>\<open>_freqs\<close> of the FFT subclass) do not exist before \<^verbatim>\<open>_construct_basis\<close> has run.
\<close>

record BasisCommonGP =
  cg_bases :: common_basis_function
  cg_params :: "(string, param) dict"
  cg_coefficients :: "(string, param) dict"
  cg_psrpos :: "real list"
  cg_basis :: "matrix option"
  cg_labels :: "real list option"
  cg_t_knots :: "real list option"
  cg_freqs :: "real list option"

definition BasisCommonGP_construct_basis :: "BasisCommonGP \<Rightarrow> params \<Rightarrow> BasisCommonGP" where
  "BasisCommonGP_construct_basis self ps =
     (let (B, l) = cb_call (cg_bases self) ps None None
      in self\<lparr>cg_basis := Some B, cg_labels := Some l\<rparr>)"

definition BasisCommonGP_init :: "(string \<Rightarrow> pulsar \<Rightarrow> common_basis_function) \<Rightarrow>
    coefficients_arg \<Rightarrow> string \<Rightarrow> common_class \<Rightarrow> pulsar \<Rightarrow> BasisCommonGP" where
  "BasisCommonGP_init basisFunction coefficients name cls psr =
     (let pname = py_join ''_'' [psr_name psr, name];
          bases = basisFunction pname psr;
          self0 = \<lparr>cg_bases = bases,
                   cg_params = add_params []
                     (dict_values (pf_params (cls_prior cls)) @ dict_values (of_params (cls_orf cls))
                      @ dict_values (cb_params bases)),
                   cg_coefficients = [], cg_psrpos = psr_pos psr, cg_basis = None,
                   cg_labels = None, cg_t_knots = None, cg_freqs = None\<rparr>
      in if truthy coefficients then
           (let self1 = BasisCommonGP_construct_basis self0 Map.empty
            in case coefficients of
                 CoefficientsParameter cp \<Rightarrow>
                   self1\<lparr>cg_coefficients := AList.update [] cp (cg_coefficients self1),
                         cg_params := AList.update (par_name cp) cp (cg_params self1)\<rparr>
               | _ \<Rightarrow>
                   (let sz = (case cg_basis self1 of None \<Rightarrow> 0 | Some B \<Rightarrow> ncols B);
                        cpar = GPCoefficients sz (pname @ ''_coefficients'')
                    in self1\<lparr>cg_coefficients := AList.update [] cpar (cg_coefficients self1),
                             cg_params := AList.update (par_name cpar) cpar (cg_params self1)\<rparr>))
         else self0)"





definition BasisCommonGP_get_phi :: "coefficients_arg \<Rightarrow> common_class \<Rightarrow> BasisCommonGP \<Rightarrow>
    params \<Rightarrow> error + pyres \<times> BasisCommonGP" where
  "BasisCommonGP_get_phi coefficients cls self ps =
     (if truthy coefficients then Inr (RNone, self)
      else
        (let self' = BasisCommonGP_construct_basis self ps
         in case cg_labels self' of
              None \<Rightarrow> Inl AttributeError
            | Some l \<Rightarrow>
                (let prior = pf_call (cls_prior cls) l ps None;
                     orf = of_call (cls_orf cls) (cg_psrpos self') (cg_psrpos self') ps
                 in case np_multiply prior orf of
                      Inl e \<Rightarrow> Inl e
                    | Inr phi \<Rightarrow> Inr (RArray phi, self'))))"


section \<open>The FFT variants\<close>

text \<open>
  The arguments of the factories \<^verbatim>\<open>FFTBasisGP\<close> and \<^verbatim>\<open>FFTBasisCommonGP\<close> that the
  methods read, and the two functions of \<^verbatim>\<open>enterprise.signals.utils\<close> they call
  (\<^verbatim>\<open>knots_to_freqs(t_knots, oversample, fmax_factor)\<close> and
  \<^verbatim>\<open>psd2cov(t_knots, psd, fmax_factor)\<close>, the last argument optional).
\<close>

text \<open>
  The record holds the values the methods see, that is after the factory has replaced
  \<^verbatim>\<open>cutbins\<close> by \<^verbatim>\<open>int(np.ceil(oversample / cutoff))\<close> when a \<^verbatim>\<open>cutoff\<close> is given and
  \<^verbatim>\<open>fmax_factor\<close> by an integer of at least 1. Both factories raise NotImplementedError
  for \<^verbatim>\<open>coefficients\<close>, so the FFT classes only exist in marginalized mode.
\<close>

record fft_env =
  cutbins :: int
  oversample :: real
  fmax_factor :: int
  Tspan :: "real option"
  start_time :: "real option"
  knots_to_freqs :: "real list \<Rightarrow> real \<Rightarrow> int \<Rightarrow> real list"
  psd2cov :: "real list \<Rightarrow> ndarray \<Rightarrow> int option \<Rightarrow> ndarray"

text \<open>
  The computation of \<^verbatim>\<open>psd\<close> from \<^verbatim>\<open>freqs\<close>, which both \<^verbatim>\<open>_construct_prior\<close> methods
  contain word for word (lines 286 to 293 and 641 to 648); \<open>prior\<close> is the call of the
  prior with \<^verbatim>\<open>components=1\<close>, including the lookup of \<^verbatim>\<open>self._prior[key]\<close> in the
  per-series class.
\<close>

definition fft_psd :: "int \<Rightarrow> (real list \<Rightarrow> error + ndarray) \<Rightarrow> real list \<Rightarrow> error + ndarray" where
  "fft_psd cb prior freqs =
     (if cb = 0 then
        (if length freqs < 2 then Inl IndexError
         else
           (case prior ((freqs ! 1) # freqs) of
              Inl e \<Rightarrow> Inl e
            | Inr psd_prior \<Rightarrow>
                (case psd_prior of
                   Array0 a \<Rightarrow> Inl IndexError
                 | Array1 P \<Rightarrow>
                     (if length P < 2 then Inl IndexError
                      else Inr (Array1 ((- (P ! 1)) # drop 2 P)))
                 | Array2 M \<Rightarrow>
                     (if nrows M < 2 then Inl IndexError
                      else Inr (Array2 (Matrix (nrows M - 1) (ncols M)
                                  (map uminus (rows M ! 1) # drop 2 (rows M)))))
                 | ArrayN sh d \<Rightarrow> Inl (Unmodelled ''more than two dimensions''))))
      else
        (case prior (tl freqs) of
           Inl e \<Rightarrow> Inl e
         | Inr psd_prior \<Rightarrow>
             (if cb < 0 then Inl (ValueError ''negative dimensions are not allowed'')
              else
                (case psd_prior of
                   Array0 a \<Rightarrow> Inl IndexError
                 | Array1 P \<Rightarrow> Inr (Array1 (replicate (nat cb) 0 @ drop (nat (cb - 1)) P))
                 | Array2 M \<Rightarrow> Inl (ValueError ''arrays must have same number of dimensions'')
                 | ArrayN sh d \<Rightarrow> Inl (ValueError ''arrays must have same number of dimensions'')))))"

text \<open>
  \<^verbatim>\<open>FFTBasisGP._construct_prior\<close>: the loop over \<^verbatim>\<open>self._slices.items()\<close>; \<open>kernel_set\<close>
  stands for \<^verbatim>\<open>KernelMatrix.set(value, slice)\<close>.
\<close>

fun FFTBasisGP_prior_loop :: "fft_env \<Rightarrow> (ndarray \<Rightarrow> ndarray \<Rightarrow> slice \<Rightarrow> ndarray) \<Rightarrow> BasisGP \<Rightarrow>
    params \<Rightarrow> (string \<times> slice) list \<Rightarrow> ndarray \<Rightarrow> error + ndarray" where
  "FFTBasisGP_prior_loop env kernel_set self ps [] phi = Inr phi"
| "FFTBasisGP_prior_loop env kernel_set self ps ((key, slc) # items) phi =
     (case dict_get (self_labels self) key of
        Inl e \<Rightarrow> Inl e
      | Inr t_knots \<Rightarrow>
          (let freqs = knots_to_freqs env t_knots (oversample env) (fmax_factor env)
           in case fft_psd (cutbins env)
                     (\<lambda>fs. case dict_get (self_prior self) key of
                              Inl e \<Rightarrow> Inl e
                            | Inr pr \<Rightarrow> Inr (pf_call pr fs ps (Some 1)))
                     freqs of
                Inl e \<Rightarrow> Inl e
              | Inr psd \<Rightarrow>
                  (let phislc = psd2cov env t_knots psd (Some (fmax_factor env))
                   in FFTBasisGP_prior_loop env kernel_set self ps items
                        (kernel_set phi phislc slc))))"

definition FFTBasisGP_construct_prior :: "fft_env \<Rightarrow> (ndarray \<Rightarrow> ndarray \<Rightarrow> slice \<Rightarrow> ndarray) \<Rightarrow>
    BasisGP \<Rightarrow> params \<Rightarrow> error + BasisGP" where
  "FFTBasisGP_construct_prior env kernel_set self ps =
     (case FFTBasisGP_prior_loop env kernel_set self ps (self_slices self) (self_phi self) of
        Inl e \<Rightarrow> Inl e
      | Inr phi \<Rightarrow> Inr (self\<lparr>self_phi := phi\<rparr>))"

text \<open>\<^verbatim>\<open>FFTBasisCommonGP\<close>: basis construction with the pooled time bounds, and the prior.\<close>

definition py_min :: "real list \<Rightarrow> error + real" where
  "py_min xs = (case xs of [] \<Rightarrow> Inl (ValueError ''min() arg is an empty sequence'')
                | x # r \<Rightarrow> Inr (foldl min x r))"

definition py_max :: "real list \<Rightarrow> error + real" where
  "py_max xs = (case xs of [] \<Rightarrow> Inl (ValueError ''max() arg is an empty sequence'')
                | x # r \<Rightarrow> Inr (foldl max x r))"

definition FFTBasisCommonGP_construct_basis :: "fft_env \<Rightarrow> common_class \<Rightarrow> BasisCommonGP \<Rightarrow>
    params \<Rightarrow> error + BasisCommonGP" where
  "FFTBasisCommonGP_construct_basis env cls self ps =
     (case (case start_time env of Some t \<Rightarrow> Inr t | None \<Rightarrow> py_min (cls_Tmin cls)) of
        Inl e \<Rightarrow> Inl e
      | Inr start \<Rightarrow>
          (case (case Tspan env of
                   Some T \<Rightarrow> Inr T
                 | None \<Rightarrow> (case py_max (cls_Tmax cls) of
                               Inl e \<Rightarrow> Inl e
                             | Inr m \<Rightarrow> Inr (m - start))) of
             Inl e \<Rightarrow> Inl e
           | Inr spn \<Rightarrow>
               (let (B, l) = cb_call (cg_bases self) ps (Some spn) (Some start)
                in Inr (self\<lparr>cg_basis := Some B, cg_labels := Some l, cg_t_knots := Some l,
                             cg_freqs := Some (knots_to_freqs env l (oversample env)
                                                 (fmax_factor env))\<rparr>))))"

definition FFTBasisCommonGP_construct_prior :: "fft_env \<Rightarrow> common_class \<Rightarrow> BasisCommonGP \<Rightarrow>
    params \<Rightarrow> error + ndarray" where
  "FFTBasisCommonGP_construct_prior env cls self ps =
     (case cg_freqs self of
        None \<Rightarrow> Inl AttributeError
      | Some freqs \<Rightarrow>
          (case fft_psd (cutbins env) (\<lambda>fs. Inr (pf_call (cls_prior cls) fs ps (Some 1))) freqs of
             Inl e \<Rightarrow> Inl e
           | Inr psd \<Rightarrow>
               (case cg_t_knots self of
                  None \<Rightarrow> Inl AttributeError
                | Some t_knots \<Rightarrow> Inr (psd2cov env t_knots psd None))))"

definition FFTBasisCommonGP_get_phi :: "fft_env \<Rightarrow> common_class \<Rightarrow> BasisCommonGP \<Rightarrow> params \<Rightarrow>
    error + ndarray \<times> BasisCommonGP" where
  "FFTBasisCommonGP_get_phi env cls self ps =
     (case FFTBasisCommonGP_construct_basis env cls self ps of
        Inl e \<Rightarrow> Inl e
      | Inr self' \<Rightarrow>
          (case FFTBasisCommonGP_construct_prior env cls self' ps of
             Inl e \<Rightarrow> Inl e
           | Inr phi \<Rightarrow>
               (case np_multiply (of_call (cls_orf cls) (cg_psrpos self') (cg_psrpos self') ps)
                       phi of
                  Inl e \<Rightarrow> Inl e
                | Inr r \<Rightarrow> Inr (r, self'))))"


section \<open>WidebandTimingModel\<close>

text \<open>
  The arguments of the factory: the parameter factories (each called with a name), the two
  selections, the reference label, the name, and what the base class
  \<^verbatim>\<open>BasisGP(prior, basis, coefficients=False, name=name)\<close> is built from: the timing-model
  prior and basis of \<^verbatim>\<open>enterprise.signals.utils\<close> and the default selection.
\<close>

record wideband_args =
  wa_dmefac :: "string \<Rightarrow> param"
  wa_log10_dmequad :: "(string \<Rightarrow> param) option"
  wa_dmjump :: "(string \<Rightarrow> param) option"
  wa_selection :: "pulsar \<Rightarrow> (string, bool list) dict"
  wa_dmjump_selection :: "pulsar \<Rightarrow> (string, bool list) dict"
  wa_dmjump_ref :: "string option"
  wa_name :: string
  wa_tm_prior :: "string \<Rightarrow> pulsar \<Rightarrow> prior_function"
  wa_tm_basis :: "string \<Rightarrow> pulsar \<Rightarrow> basis_function"
  wa_no_selection :: "pulsar \<Rightarrow> (string, bool list) dict"

record WidebandTimingModel =
  wb_base :: BasisGP
  wb_dm_keys :: "string list"
  wb_dm_masks :: "bool list list"
  wb_dmjump_keys :: "string list"
  wb_dmjump_masks :: "bool list list"
  wb_params :: "(string, param) dict"
  wb_dmefacs :: "param list"
  wb_log10_dmequads :: "param list"
  wb_dmjumps :: "param list"
  wb_ntoas :: nat
  wb_npars :: nat
  wb_freqs :: "real list"
  wb_dmpar :: real
  wb_dm :: "real list"
  wb_dmerr :: "real list"
  wb_dmx :: "real list"
  wb_dmindex :: "nat list"
  wb_dmwhich :: "bool list list"
  wb_ndmx :: nat

definition Constant :: "real \<Rightarrow> string \<Rightarrow> param" where
  \<comment> \<open>Modelled from the spec: the parameter classes are not part of this module; a
      constant parameter has a name and the fixed value.\<close>
  "Constant val name = \<lparr>par_name = name, par_size = 1, par_value = PFloat val\<rparr>"

text \<open>\<^verbatim>\<open>list.index(x)\<close>: the first position of \<open>x\<close>, or a ValueError.\<close>

fun list_index :: "'a list \<Rightarrow> 'a \<Rightarrow> error + nat" where
  "list_index [] x = Inl (ValueError ''x is not in list'')"
| "list_index (y # ys) x =
     (if y = x then Inr 0
      else (case list_index ys x of Inl e \<Rightarrow> Inl e | Inr i \<Rightarrow> Inr (Suc i)))"

text \<open>\<^verbatim>\<open>check += which\<close>: in-place addition of a boolean array to an integer array.\<close>

definition np_iadd_bool :: "int list \<Rightarrow> bool list \<Rightarrow> error + int list" where
  "np_iadd_bool check which =
     (if length which = length check then
        Inr (map2 (\<lambda>c w. c + (if w then 1 else 0)) check which)
      else if length which = 1 then
        Inr (map (\<lambda>c. c + (if hd which then 1 else 0)) check)
      else Inl (ValueError ''operands could not be broadcast together''))"

text \<open>The loops that collect the DMEFAC, DMEQUAD and DMJUMP parameters.\<close>

fun collect_dmefacs :: "wideband_args \<Rightarrow> pulsar \<Rightarrow> string list \<Rightarrow> WidebandTimingModel \<Rightarrow>
    WidebandTimingModel" where
  "collect_dmefacs args psr [] self = self"
| "collect_dmefacs args psr (key # keys) self =
     (let param = wa_dmefac args
            (py_join ''_'' (filter (\<lambda>n. n \<noteq> []) [psr_name psr, key, ''dmefac'']));
          self1 = self\<lparr>wb_dmefacs := wb_dmefacs self @ [param],
                       wb_params := AList.update (par_name param) param (wb_params self)\<rparr>
      in case wa_log10_dmequad args of
           None \<Rightarrow> collect_dmefacs args psr keys self1
         | Some log10_dmequad \<Rightarrow>
             (let param2 = log10_dmequad
                    (py_join ''_'' (filter (\<lambda>n. n \<noteq> []) [psr_name psr, key, ''log10_dmequad'']))
              in collect_dmefacs args psr keys
                   (self1\<lparr>wb_log10_dmequads := wb_log10_dmequads self1 @ [param2],
                          wb_params := AList.update (par_name param2) param2 (wb_params self1)\<rparr>)))"

fun collect_dmjumps :: "wideband_args \<Rightarrow> (string \<Rightarrow> param) \<Rightarrow> pulsar \<Rightarrow> string list \<Rightarrow>
    WidebandTimingModel \<Rightarrow> WidebandTimingModel" where
  "collect_dmjumps args dmjump psr [] self = self"
| "collect_dmjumps args dmjump psr (key # keys) self =
     (let pname = py_join ''_'' (filter (\<lambda>n. n \<noteq> []) [psr_name psr, key, ''dmjump'']);
          param = (if wa_dmjump_ref args \<noteq> None \<and> Some key = wa_dmjump_ref args
                   then Constant 0 pname else dmjump pname)
      in collect_dmjumps args dmjump psr keys
           (self\<lparr>wb_dmjumps := wb_dmjumps self @ [param],
                 wb_params := AList.update (par_name param) param (wb_params self)\<rparr>))"

text \<open>
  The loop over \<^verbatim>\<open>enumerate(sorted(psr.dmx))\<close>: each DMX parameter must be fitted and
  among the fit parameters; its interval selects the observations whose time in days lies
  in \<open>[DMXR1, DMXR2)\<close>, and \<open>check\<close> counts, per observation, the intervals that hold it.
\<close>

fun assign_dmx :: "pulsar \<Rightarrow> string list \<Rightarrow> WidebandTimingModel \<Rightarrow> int list \<Rightarrow>
    error + WidebandTimingModel \<times> int list" where
  "assign_dmx psr [] self check = Inr (self, check)"
| "assign_dmx psr (key # keys) self check =
     (case dict_get (psr_dmx psr) key of
        Inl e \<Rightarrow> Inl e
      | Inr dmx \<Rightarrow>
          (if \<not> dmx_fit dmx then
             Inl (ValueError ''WidebandTimingModel: all DMX parameters must be estimated.'')
           else
             (case list_index (psr_fitpars psr) key of
                Inl e \<Rightarrow> Inl e
              | Inr i \<Rightarrow>
                  (let which = map (\<lambda>s. dmx_DMXR1 dmx \<le> s / 86400 \<and> s / 86400 < dmx_DMXR2 dmx)
                                 (psr_stoas psr)
                   in case np_iadd_bool check which of
                        Inl e \<Rightarrow> Inl e
                      | Inr check' \<Rightarrow>
                          assign_dmx psr keys
                            (self\<lparr>wb_dmx := wb_dmx self @ [dmx_DMX dmx],
                                  wb_dmindex := wb_dmindex self @ [i],
                                  wb_dmwhich := wb_dmwhich self @ [which]\<rparr>)
                            check'))))"

definition WidebandTimingModel_init :: "wideband_args \<Rightarrow> pulsar \<Rightarrow> error + WidebandTimingModel" where
  "WidebandTimingModel_init args psr =
     (case do_selection psr (wa_name args) (wa_tm_prior args) (wa_tm_basis args) False
             (wa_no_selection args) of
        Inl e \<Rightarrow> Inl e
      | Inr base \<Rightarrow>
     (let dm_select = wa_selection args psr;
          dm_keys = sort (dict_keys dm_select)
      in case mapM (dict_get dm_select) dm_keys of
           Inl e \<Rightarrow> Inl e
         | Inr dm_masks \<Rightarrow>
     (let dmjump_select = wa_dmjump_selection args psr;
          dmjump_keys = sort (dict_keys dmjump_select)
      in case mapM (dict_get dmjump_select) dmjump_keys of
           Inl e \<Rightarrow> Inl e
         | Inr dmjump_masks \<Rightarrow>
     (if dmjump_keys = [[]] \<and> wa_dmjump args \<noteq> None then
        Inl (ValueError ''WidebandTimingModel: can only do DMJUMP with more than one selection.'')
      else
     (let self0 = \<lparr>wb_base = base, wb_dm_keys = dm_keys, wb_dm_masks = dm_masks,
                   wb_dmjump_keys = dmjump_keys, wb_dmjump_masks = dmjump_masks,
                   wb_params = [], wb_dmefacs = [], wb_log10_dmequads = [], wb_dmjumps = [],
                   wb_ntoas = 0, wb_npars = 0, wb_freqs = [], wb_dmpar = 0, wb_dm = [],
                   wb_dmerr = [], wb_dmx = [], wb_dmindex = [], wb_dmwhich = [], wb_ndmx = 0\<rparr>;
          self1 = collect_dmefacs args psr dm_keys self0;
          self2 = (case wa_dmjump args of
                     None \<Rightarrow> self1
                   | Some dmjump \<Rightarrow> collect_dmjumps args dmjump psr dmjump_keys self1)
      in case dict_get (psr_flags psr) ''pp_dm'' of
           Inl e \<Rightarrow> Inl e
         | Inr dm \<Rightarrow>
     (case dict_get (psr_flags psr) ''pp_dme'' of
        Inl e \<Rightarrow> Inl e
      | Inr dmerr \<Rightarrow>
     (let self3 = self2\<lparr>wb_ntoas := length (psr_toas psr), wb_npars := length (psr_fitpars psr),
                        wb_freqs := psr_freqs psr, wb_dmpar := psr_dm psr, wb_dm := dm,
                        wb_dmerr := dmerr\<rparr>
      in case assign_dmx psr (sort (dict_keys (psr_dmx psr))) self3
                (replicate (length (psr_toas psr)) 0) of
           Inl e \<Rightarrow> Inl e
         | Inr (self4, check) \<Rightarrow>
             (if sum_list check \<noteq> int (wb_ntoas self4) then
                Inl (ValueError ''WidebandTimingModel: cannot account for all TOAs in DMX intervals.'')
              else if ''DM'' \<in> set (psr_fitpars psr) then
                Inl (ValueError ''WidebandTimingModel: DM must not be estimated.'')
              else Inr (self4\<lparr>wb_ndmx := length (wb_dmx self4)\<rparr>)))))))))"

text \<open>
  The number of DMX intervals that hold observation \<open>i\<close>, from the intervals themselves.
\<close>

definition coverage :: "pulsar \<Rightarrow> nat \<Rightarrow> nat" where
  "coverage psr i =
     length (filter (\<lambda>key. case map_of (psr_dmx psr) key of
                             None \<Rightarrow> False
                           | Some dmx \<Rightarrow> dmx_DMXR1 dmx \<le> psr_stoas psr ! i / 86400 \<and>
                                        psr_stoas psr ! i / 86400 < dmx_DMXR2 dmx)
               (dict_keys (psr_dmx psr)))"

text \<open>Whether the DMX interval of a key holds the time \<open>s\<close> (in seconds).\<close>

definition inside :: "pulsar \<Rightarrow> string \<Rightarrow> real \<Rightarrow> bool" where
  "inside psr key s =
     (case map_of (psr_dmx psr) key of
        None \<Rightarrow> False
      | Some dmx \<Rightarrow> dmx_DMXR1 dmx \<le> s / 86400 \<and> s / 86400 < dmx_DMXR2 dmx)"

section \<open>MarginalizingNmat\<close>

text \<open>
  A noise operator is any object with a \<^verbatim>\<open>solve(right, left_array=..., logdet=...)\<close>
  method: called without \<^verbatim>\<open>logdet\<close> it returns an array, with \<^verbatim>\<open>logdet=True\<close> an array
  and the operator's log-determinant.
\<close>

record noise_operator =
  no_solve :: "ndarray \<Rightarrow> ndarray \<Rightarrow> error + ndarray"
  no_solve_logdet :: "ndarray \<Rightarrow> ndarray \<Rightarrow> error + ndarray \<times> real"

text \<open>
  The objects \<^verbatim>\<open>__add__\<close> can meet: numbers, arrays, objects with a \<^verbatim>\<open>solve\<close> method,
  instances of MarginalizingNmat, and objects that are none of these and not equal to 0.
\<close>

datatype pyobj =
    PyInt int
  | PyFloat real
  | PyArray ndarray
  | PySolver noise_operator
  | PyMarginalizingNmat MarginalizingNmat
  | PyOther
and MarginalizingNmat =
    MarginalizingNmat (Mmat: matrix) (Nmat: pyobj) (Mprior: real)

definition MarginalizingNmat_init :: "matrix \<Rightarrow> pyobj \<Rightarrow> MarginalizingNmat" where
  "MarginalizingNmat_init M N = MarginalizingNmat M N (real (ncols M) * ln (10 ^ 40))"

fun isinstance_MarginalizingNmat :: "pyobj \<Rightarrow> bool" where
  "isinstance_MarginalizingNmat (PyMarginalizingNmat m) = True"
| "isinstance_MarginalizingNmat other = False"

fun isinstance_ndarray :: "pyobj \<Rightarrow> bool" where
  "isinstance_ndarray (PyArray a) = True"
| "isinstance_ndarray other = False"

fun hasattr_solve :: "pyobj \<Rightarrow> bool" where
  "hasattr_solve (PySolver op) = True"
| "hasattr_solve (PyMarginalizingNmat m) = True"
| "hasattr_solve other = False"

fun eq_zero :: "pyobj \<Rightarrow> bool" where
  "eq_zero (PyInt n) = (n = 0)"
| "eq_zero (PyFloat x) = (x = 0)"
| "eq_zero other = False"

text \<open>
  \<^verbatim>\<open>__add__\<close> and \<^verbatim>\<open>__radd__\<close>; \<open>py_add\<close> stands for the \<^verbatim>\<open>+\<close> of the operand classes in
  \<^verbatim>\<open>self.Nmat + other\<close>.
\<close>

definition add :: "(pyobj \<Rightarrow> pyobj \<Rightarrow> error + pyobj) \<Rightarrow> MarginalizingNmat \<Rightarrow> pyobj \<Rightarrow>
    error + MarginalizingNmat" where
  "add py_add self other =
     (if isinstance_MarginalizingNmat other then
        Inl (ValueError ''Cannot combine multiple MarginalizingNmat objects.'')
      else if isinstance_ndarray other \<or> hasattr_solve other then
        (case py_add (Nmat self) other of
           Inl e \<Rightarrow> Inl e
         | Inr N \<Rightarrow> Inr (MarginalizingNmat_init (Mmat self) N))
      else if eq_zero other then Inr self
      else Inl TypeError)"


text \<open>
  \<^verbatim>\<open>self.Nmat.solve(...)\<close>: only an operator has the method (the nested case, a
  MarginalizingNmat as noise operator, is not computed here).
\<close>

fun Nmat_solve :: "pyobj \<Rightarrow> ndarray \<Rightarrow> ndarray \<Rightarrow> error + ndarray" where
  "Nmat_solve (PySolver op) right left_array = no_solve op right left_array"
| "Nmat_solve (PyMarginalizingNmat m) right left_array = Inl (Unmodelled ''nested MarginalizingNmat'')"
| "Nmat_solve other right left_array = Inl AttributeError"

fun Nmat_solve_logdet :: "pyobj \<Rightarrow> ndarray \<Rightarrow> ndarray \<Rightarrow> error + ndarray \<times> real" where
  "Nmat_solve_logdet (PySolver op) right left_array = no_solve_logdet op right left_array"
| "Nmat_solve_logdet (PyMarginalizingNmat m) right left_array =
     Inl (Unmodelled ''nested MarginalizingNmat'')"
| "Nmat_solve_logdet other right left_array = Inl AttributeError"

text \<open>
  The Cholesky factor \<^verbatim>\<open>cholesky(sps.csc_matrix(MNM))\<close> of sksparse: an object that solves
  when called and has a log-determinant. \<open>cholesky\<close> stands for the factorization.
\<close>

record factor =
  cf_call :: "ndarray \<Rightarrow> error + ndarray"
  cf_logdet :: real

definition cf :: "(ndarray \<Rightarrow> error + factor) \<Rightarrow> MarginalizingNmat \<Rightarrow> error + factor" where
  "cf cholesky self =
     (case Nmat_solve (Nmat self) (Array2 (Mmat self)) (Array2 (Mmat self)) of
        Inl e \<Rightarrow> Inl e
      | Inr MNM \<Rightarrow> cholesky MNM)"

text \<open>The memoized helpers; \<^verbatim>\<open>simplememobyid\<close> only avoids recomputation and is left out.\<close>

definition MNr :: "MarginalizingNmat \<Rightarrow> ndarray \<Rightarrow> error + ndarray" where
  "MNr self res = Nmat_solve (Nmat self) res (Array2 (Mmat self))"

definition MNF :: "MarginalizingNmat \<Rightarrow> ndarray \<Rightarrow> error + ndarray" where
  "MNF self T = Nmat_solve (Nmat self) T (Array2 (Mmat self))"

definition MNMMNF :: "(ndarray \<Rightarrow> error + factor) \<Rightarrow> MarginalizingNmat \<Rightarrow> ndarray \<Rightarrow>
    error + ndarray" where
  "MNMMNF cholesky self T =
     (case cf cholesky self of
        Inl e \<Rightarrow> Inl e
      | Inr f \<Rightarrow> (case MNF self T of Inl e \<Rightarrow> Inl e | Inr x \<Rightarrow> cf_call f x))"

text \<open>
  An argument of \<^verbatim>\<open>solve\<close> is an array object: its identity (what \<^verbatim>\<open>is\<close> compares) and
  its value.
\<close>

type_synonym array_object = "nat \<times> ndarray"

definition is_same :: "array_object option \<Rightarrow> array_object \<Rightarrow> bool" where
  "is_same left_array right = (case left_array of None \<Rightarrow> False | Some l \<Rightarrow> fst l = fst right)"

datatype solve_result = Ret ndarray | RetTuple ndarray real

definition solve :: "(ndarray \<Rightarrow> error + factor) \<Rightarrow> MarginalizingNmat \<Rightarrow> array_object \<Rightarrow>
    array_object option \<Rightarrow> bool \<Rightarrow> error + solve_result" where
  "solve cholesky self right left_array logdet =
     (if ndim (snd right) = 1 \<and> is_same left_array right then
        (let res = snd right
         in case Nmat_solve_logdet (Nmat self) res res of
              Inl e \<Rightarrow> Inl e
            | Inr (rNr, logdet_N) \<Rightarrow>
          (case MNr self res of
              Inl e \<Rightarrow> Inl e
            | Inr mnr \<Rightarrow>
          (case cf cholesky self of
              Inl e \<Rightarrow> Inl e
            | Inr f \<Rightarrow>
          (case cf_call f mnr of
              Inl e \<Rightarrow> Inl e
            | Inr x \<Rightarrow>
          (case np_dot mnr x of
              Inl e \<Rightarrow> Inl e
            | Inr d \<Rightarrow>
          (case np_subtract rNr d of
              Inl e \<Rightarrow> Inl e
            | Inr ret \<Rightarrow>
                (if logdet then Inr (RetTuple ret (logdet_N + cf_logdet f + Mprior self))
                 else Inr (Ret ret))))))))
      else if ndim (snd right) = 1 \<and> left_array \<noteq> None \<and> ndim (snd (the left_array)) = 2 then
        (let res = snd right; T = snd (the left_array)
         in case Nmat_solve (Nmat self) res T of
              Inl e \<Rightarrow> Inl e
            | Inr TNr \<Rightarrow>
          (case MNMMNF cholesky self T of
              Inl e \<Rightarrow> Inl e
            | Inr a \<Rightarrow>
          (case MNr self res of
              Inl e \<Rightarrow> Inl e
            | Inr b \<Rightarrow>
          (case np_tensordot00 a b of
              Inl e \<Rightarrow> Inl e
            | Inr t \<Rightarrow>
          (case np_subtract TNr t of Inl e \<Rightarrow> Inl e | Inr ret \<Rightarrow> Inr (Ret ret))))))
      else if ndim (snd right) = 2 \<and> is_same left_array right then
        (let T = snd right
         in case Nmat_solve (Nmat self) T T of
              Inl e \<Rightarrow> Inl e
            | Inr TNT \<Rightarrow>
          (case MNF self T of
              Inl e \<Rightarrow> Inl e
            | Inr a \<Rightarrow>
          (case MNMMNF cholesky self T of
              Inl e \<Rightarrow> Inl e
            | Inr b \<Rightarrow>
          (case np_tensordot00 a b of
              Inl e \<Rightarrow> Inl e
            | Inr t \<Rightarrow>
          (case np_subtract TNT t of Inl e \<Rightarrow> Inl e | Inr ret \<Rightarrow> Inr (Ret ret))))))
      else if left_array \<noteq> None \<and> ndim (snd right) = ndim (snd (the left_array)) \<and>
              ndim (snd right) \<le> 2 then
        (let T = snd right; L = snd (the left_array)
         in case Nmat_solve (Nmat self) T L of
              Inl e \<Rightarrow> Inl e
            | Inr LNT \<Rightarrow>
          (case MNF self L of
              Inl e \<Rightarrow> Inl e
            | Inr a \<Rightarrow>
          (case MNMMNF cholesky self T of
              Inl e \<Rightarrow> Inl e
            | Inr b \<Rightarrow>
          (case np_tensordot00 a b of
              Inl e \<Rightarrow> Inl e
            | Inr t \<Rightarrow>
          (case np_subtract LNT t of Inl e \<Rightarrow> Inl e | Inr ret \<Rightarrow> Inr (Ret ret))))))
      else Inl (ValueError ''Incorrect arguments given to MarginalizingNmat.solve.''))"


subsection \<open>The slice assignment in the specification's words\<close>

text \<open>
  Concatenating widths from a start column: the first range starts at \<open>a\<close>, each range is
  as wide as its key's block, and each next range starts where the previous one stops.
\<close>

fun concat_widths :: "nat \<Rightarrow> nat list \<Rightarrow> slice list" where
  "concat_widths a [] = []"
| "concat_widths a (w # ws) = (a, a + w) # concat_widths (a + w) ws"

text \<open>The block a key's basis function returns for the key's mask, and its width.\<close>

definition block :: "(string, basis_function) dict \<Rightarrow> params \<Rightarrow> string \<times> bool list \<Rightarrow> matrix" where
  "block bases ps km =
     (case dict_get bases (fst km) of
        Inl e \<Rightarrow> Matrix 0 0 []
      | Inr bf \<Rightarrow> fst (bf_call bf ps (snd km)))"

definition basis_widths :: "BasisGP \<Rightarrow> params \<Rightarrow> nat list" where
  "basis_widths self ps =
     map (\<lambda>km. ncols (block (self_bases self) ps km)) (zip (self_keys self) (self_masks self))"

definition width_of :: "(string, matrix) dict \<Rightarrow> string \<times> bool list \<Rightarrow> nat" where
  "width_of basis km = (case dict_get basis (fst km) of Inl e \<Rightarrow> 0 | Inr F \<Rightarrow> ncols F)"

subsection \<open>The coefficient vector in the specification's words\<close>

text \<open>
  The value used for a coefficient parameter: the sampled value when the parameter's name
  is in \<^verbatim>\<open>params\<close>, the parameter's current value otherwise.
\<close>

definition sampled_or_point :: "params \<Rightarrow> param \<Rightarrow> pyval" where
  "sampled_or_point ps p = (case ps (par_name p) of Some v \<Rightarrow> v | None \<Rightarrow> par_value p)"

text \<open>A value as \<open>w\<close> array entries: an array of that length as it is, a scalar repeated.\<close>

definition broadcast_value :: "pyval \<Rightarrow> nat \<Rightarrow> real list" where
  "broadcast_value v w =
     (case v of
        PNone \<Rightarrow> []
      | PInt n \<Rightarrow> replicate w (real_of_int n)
      | PFloat x \<Rightarrow> replicate w x
      | PArray xs \<Rightarrow> (if length xs = w then xs else replicate w (hd xs)))"

subsection \<open>The two PSD policies in the specification's words\<close>

text \<open>
  For zero cut-off bins the prior is evaluated on the grid \<open>freqs[1], freqs[0], freqs[1],
  freqs[2], ...\<close>; the first bin of the PSD is the negative of the prior's value at index
  1 of that grid and the later bins are the prior's values from index 2 on.
\<close>

definition mirror_psd :: "real list \<Rightarrow> real list" where
  "mirror_psd P = (- (P ! 1)) # drop 2 P"

text \<open>
  For \<open>n > 0\<close> cut-off bins the prior is evaluated on \<open>freqs[1:]\<close>; the PSD has \<open>n\<close>
  leading zeros, followed by the prior's values from index \<open>n - 1\<close> on.
\<close>

definition cut_psd :: "nat \<Rightarrow> real list \<Rightarrow> real list" where
  "cut_psd n P = replicate n 0 @ drop (n - 1) P"

subsection \<open>A two-backend example instance\<close>

definition demo_psr :: pulsar where
  "demo_psr =
     \<lparr>psr_name = ''J1'', psr_pos = [1, 0, 0], psr_toas = [86400, 1728000],
      psr_stoas = [86400, 1728000], psr_freqs = [1400, 1400],
      psr_fitpars = [''F0'', ''DMX_0001'', ''DMX_0002''], psr_dm = 10,
      psr_dmx = [(''DMX_0001'', \<lparr>dmx_fit = True, dmx_DMX = 0, dmx_DMXR1 = 0, dmx_DMXR2 = 10\<rparr>),
                 (''DMX_0002'', \<lparr>dmx_fit = True, dmx_DMX = 0, dmx_DMXR1 = 10, dmx_DMXR2 = 30\<rparr>)],
      psr_flags = [(''pp_dm'', [10, 10]), (''pp_dme'', [1, 1])]\<rparr>"

definition demo_selection :: "pulsar \<Rightarrow> (string, bool list) dict" where
  "demo_selection psr = [(''b'', [False, True]), (''a'', [True, False])]"

definition demo_basisfn :: "string \<Rightarrow> pulsar \<Rightarrow> basis_function" where
  "demo_basisfn pname psr =
     \<lparr>bf_call = (\<lambda>ps m. (case m of
                    True # _ \<Rightarrow> (Matrix 1 1 [[2]], [1])
                  | _ \<Rightarrow> (Matrix 1 2 [[3, 5]], [1, 2]))),
      bf_params = []\<rparr>"

definition demo_priorfn :: "string \<Rightarrow> pulsar \<Rightarrow> prior_function" where
  "demo_priorfn pname psr = \<lparr>pf_call = (\<lambda>labels ps components. Array1 (map (\<lambda>l. 1) labels)), pf_params = []\<rparr>"

definition demo_self :: BasisGP where
  "demo_self =
     \<lparr>self_keys = [''a'', ''b''],
      self_masks = [[True, False], [False, True]],
      self_prior = [(''a'', demo_priorfn ''J1_gp_a'' demo_psr), (''b'', demo_priorfn ''J1_gp_b'' demo_psr)],
      self_bases = [(''a'', demo_basisfn ''J1_gp_a'' demo_psr), (''b'', demo_basisfn ''J1_gp_b'' demo_psr)],
      self_params = [(''J1_gp_a_coefficients'', GPCoefficients 1 ''J1_gp_a_coefficients''),
                     (''J1_gp_b_coefficients'', GPCoefficients 2 ''J1_gp_b_coefficients'')],
      self_coefficients = [(''a'', GPCoefficients 1 ''J1_gp_a_coefficients''),
                           (''b'', GPCoefficients 2 ''J1_gp_b_coefficients'')],
      self_basis = Matrix 2 3 [[2, 0, 0], [0, 3, 5]],
      self_labels = [(''a'', [1]), (''b'', [1, 2])],
      self_phi = Array1 [0, 0, 0],
      self_slices = [(''a'', (0, 1)), (''b'', (1, 3))]\<rparr>"

text \<open>The same instance with a full-covariance prior for key \<open>b\<close>, and an inversion for it.\<close>

definition demo_priorfn2 :: "string \<Rightarrow> pulsar \<Rightarrow> prior_function" where
  "demo_priorfn2 pname psr =
     \<lparr>pf_call = (\<lambda>labels ps components. Array2 (Matrix 2 2 [[2, 0], [0, 2]])), pf_params = []\<rparr>"

definition demo_self2 :: BasisGP where
  "demo_self2 = demo_self\<lparr>self_prior :=
     [(''a'', demo_priorfn ''J1_gp_a'' demo_psr), (''b'', demo_priorfn2 ''J1_gp_b'' demo_psr)]\<rparr>"

definition demo_kernel_inv :: "ndarray \<Rightarrow> error + ndarray \<times> real" where
  "demo_kernel_inv phi = Inr (Array2 (Matrix 2 2 [[1 / 2, 0], [0, 1 / 2]]), ln 4)"

text \<open>The instance once its coefficient parameters hold values, and a sample for key \<open>a\<close>.\<close>

definition demo_self3 :: BasisGP where
  "demo_self3 = demo_self\<lparr>self_coefficients :=
     [(''a'', \<lparr>par_name = ''J1_gp_a_coefficients'', par_size = 1, par_value = PArray [4]\<rparr>),
      (''b'', \<lparr>par_name = ''J1_gp_b_coefficients'', par_size = 2, par_value = PArray [1, 2]\<rparr>)]\<rparr>"

definition demo_params :: params where
  "demo_params = [''J1_gp_a_coefficients'' \<mapsto> PArray [7]]"

subsection \<open>Example FFT signals\<close>

text \<open>
  A spectrum with the value \<open>f + 1\<close> at frequency \<open>f\<close>, a constant overlap-reduction
  function, a frequency grid \<open>0, 1, 2\<close>, and a PSD-to-covariance transform that returns
  the PSD it is given.
\<close>

definition demo_spectrum :: prior_function where
  "demo_spectrum = \<lparr>pf_call = (\<lambda>fs ps components. Array1 (map (\<lambda>f. f + 1) fs)), pf_params = []\<rparr>"

definition demo_orf :: orf_function where
  "demo_orf = \<lparr>of_call = (\<lambda>pos1 pos2 ps. Array0 1), of_params = []\<rparr>"

definition demo_cls :: common_class where
  "demo_cls = \<lparr>cls_orf = demo_orf, cls_prior = demo_spectrum, cls_Tmin = [], cls_Tmax = []\<rparr>"

definition demo_env :: "int \<Rightarrow> fft_env" where
  "demo_env cb =
     \<lparr>cutbins = cb, oversample = 3, fmax_factor = 1, Tspan = Some 2, start_time = Some 0,
      knots_to_freqs = (\<lambda>t_knots os ff. [0, 1, 2]),
      psd2cov = (\<lambda>t_knots psd ff. psd)\<rparr>"

definition demo_common :: "real list \<Rightarrow> real list \<Rightarrow> BasisCommonGP" where
  "demo_common pos labels =
     \<lparr>cg_bases = \<lparr>cb_call = (\<lambda>ps T t0. (Matrix 1 (length labels) [labels], labels)), cb_params = []\<rparr>,
      cg_params = [], cg_coefficients = [], cg_psrpos = pos,
      cg_basis = Some (Matrix 1 (length labels) [labels]), cg_labels = Some labels,
      cg_t_knots = Some labels, cg_freqs = Some [0, 1, 2]\<rparr>"

definition demo_fft_self :: BasisGP where
  "demo_fft_self = demo_self\<lparr>self_prior := [(''a'', demo_spectrum), (''b'', demo_spectrum)]\<rparr>"

definition demo_kernel_set :: "ndarray \<Rightarrow> ndarray \<Rightarrow> slice \<Rightarrow> ndarray" where
  "demo_kernel_set phi v slc = v"

subsection \<open>Example wideband pulsars\<close>

text \<open>
  \<open>demo_psr\<close> has two observations, on days 1 and 20, and DMX intervals \<open>[0, 10)\<close> and
  \<open>[10, 30)\<close>. In \<open>overlap_psr\<close> the second interval is \<open>[0, 5)\<close> instead: day 1 lies in
  both intervals and day 20 in none.
\<close>

definition overlap_psr :: pulsar where
  "overlap_psr = demo_psr\<lparr>psr_dmx :=
     [(''DMX_0001'', \<lparr>dmx_fit = True, dmx_DMX = 0, dmx_DMXR1 = 0, dmx_DMXR2 = 10\<rparr>),
      (''DMX_0002'', \<lparr>dmx_fit = True, dmx_DMX = 0, dmx_DMXR1 = 0, dmx_DMXR2 = 5\<rparr>)]\<rparr>"

definition demo_param :: "string \<Rightarrow> param" where
  "demo_param pname = \<lparr>par_name = pname, par_size = 1, par_value = PFloat 1\<rparr>"

definition demo_wideband_args :: wideband_args where
  "demo_wideband_args =
     \<lparr>wa_dmefac = demo_param, wa_log10_dmequad = Some demo_param, wa_dmjump = None,
      wa_selection = (\<lambda>psr. [([], [True, True])]),
      wa_dmjump_selection = (\<lambda>psr. [([], [True, True])]),
      wa_dmjump_ref = None, wa_name = ''wideband_timing_model'',
      wa_tm_prior = demo_priorfn, wa_tm_basis = demo_basisfn,
      wa_no_selection = (\<lambda>psr. [([], [True, True])])\<rparr>"

subsection \<open>An example solve engine\<close>

text \<open>
  Three observations, the rank-1 basis of ones, identity noise: the operator returns
  \<open>left^T right\<close> with log-determinant 0, and the factor of a 1 by 1 matrix \<open>[[m]]\<close>
  divides by \<open>m\<close> and has log-determinant \<open>ln m\<close>.
\<close>

definition identity_noise :: noise_operator where
  "identity_noise =
     \<lparr>no_solve = (\<lambda>right left_array. np_tensordot00 left_array right),
      no_solve_logdet = (\<lambda>right left_array.
         case np_tensordot00 left_array right of Inl e \<Rightarrow> Inl e | Inr x \<Rightarrow> Inr (x, 0))\<rparr>"

definition demo_cholesky :: "ndarray \<Rightarrow> error + factor" where
  "demo_cholesky MNM =
     (case MNM of
        Array2 M \<Rightarrow>
          (case rows M of
             [[m]] \<Rightarrow> Inr \<lparr>cf_call = (\<lambda>v. np_divide v (Array0 m)), cf_logdet = ln m\<rparr>
           | _ \<Rightarrow> Inl (ValueError ''not a 1 by 1 matrix''))
      | _ \<Rightarrow> Inl (ValueError ''not a 1 by 1 matrix''))"


definition demo_marg :: MarginalizingNmat where
  "demo_marg = MarginalizingNmat_init (Matrix 3 1 [[1], [1], [1]]) (PySolver identity_noise)"

section \<open>Column slices of the combined basis\<close>

lemma update_fresh: "k \<notin> fst ` set al \<Longrightarrow> AList.update k v al = al @ [(k, v)]"
  by (induction al) auto

lemma length_concat_widths [simp]: "length (concat_widths a ws) = length ws"
  by (induction ws arbitrary: a) auto

lemma call_bases_result:
  "call_bases bases ps kms basis labels = Inr (b', l') \<Longrightarrow> distinct (map fst kms) \<Longrightarrow>
   fst ` set kms \<inter> fst ` set basis = {} \<Longrightarrow>
   b' = basis @ map (\<lambda>km. (fst km, block bases ps km)) kms"
proof (induction kms arbitrary: basis labels)
  case Nil
  then show ?case by simp
next
  case (Cons km kms)
  obtain key msk where km: "km = (key, msk)" by (cases km)
  from Cons.prems(1) km obtain bf where bf: "dict_get bases key = Inr bf"
    by (auto split: sum.splits)
  obtain F l where Fl: "bf_call bf ps msk = (F, l)" by (cases "bf_call bf ps msk")
  have fresh: "key \<notin> fst ` set basis" using Cons.prems(3) km by auto
  have rec: "call_bases bases ps kms (basis @ [(key, F)]) (AList.update key l labels) = Inr (b', l')"
    using Cons.prems(1) km bf Fl fresh by (simp add: update_fresh)
  have d: "distinct (map fst kms)" using Cons.prems(2) by simp
  have disj: "fst ` set kms \<inter> fst ` set (basis @ [(key, F)]) = {}"
    using Cons.prems(2,3) km by auto
  have "b' = (basis @ [(key, F)]) @ map (\<lambda>km. (fst km, block bases ps km)) kms"
    by (rule Cons.IH [OF rec d disj])
  moreover have "block bases ps km = F" using km bf Fl by (simp add: block_def)
  ultimately show ?case using km by simp
qed

lemma np_set_masked_cols_shape:
  "np_set_masked_cols B msk s F = Inr B' \<Longrightarrow> ncols B' = ncols B \<and> nrows B' = nrows B"
  by (auto simp: np_set_masked_cols_def Let_def split: if_splits sum.splits)

lemma fill_basis_result:
  "fill_basis basis kms B slices nctot = Inr (B', sl') \<Longrightarrow> distinct (map fst kms) \<Longrightarrow>
   fst ` set kms \<inter> fst ` set slices = {} \<Longrightarrow>
   sl' = slices @ zip (map fst kms) (concat_widths nctot (map (width_of basis) kms)) \<and>
   ncols B' = ncols B \<and> nrows B' = nrows B"
proof (induction kms arbitrary: B slices nctot)
  case Nil
  then show ?case by simp
next
  case (Cons km kms)
  obtain key msk where km: "km = (key, msk)" by (cases km)
  from Cons.prems(1) km obtain Fmat where F: "dict_get basis key = Inr Fmat"
    by (auto split: sum.splits)
  from Cons.prems(1) km F obtain B1 where
    B1: "np_set_masked_cols B msk (nctot, ncols Fmat + nctot) Fmat = Inr B1"
    by (auto simp: Let_def split: sum.splits)
  have fresh: "key \<notin> fst ` set slices" using Cons.prems(3) km by auto
  have rec: "fill_basis basis kms B1 (slices @ [(key, (nctot, ncols Fmat + nctot))])
      (nctot + ncols Fmat) = Inr (B', sl')"
    using Cons.prems(1) km F B1 fresh by (simp add: update_fresh Let_def)
  have d: "distinct (map fst kms)" using Cons.prems(2) by simp
  have disj: "fst ` set kms \<inter> fst ` set (slices @ [(key, (nctot, ncols Fmat + nctot))]) = {}"
    using Cons.prems(2,3) km by auto
  note ih = Cons.IH [OF rec d disj]
  have w: "width_of basis km = ncols Fmat" using km F by (simp add: width_of_def)
  show ?case using ih km w np_set_masked_cols_shape [OF B1] by (simp add: add.commute)
qed

lemma map_of_blocks:
  "distinct (map fst kms) \<Longrightarrow> km \<in> set kms \<Longrightarrow>
   map_of (map (\<lambda>km. (fst km, f km)) kms) (fst km) = Some (f km)"
  by (induction kms) (auto simp: rev_image_eqI)

lemma width_of_blocks:
  assumes "distinct (map fst kms)"
  shows "map (width_of (map (\<lambda>km. (fst km, f km)) kms)) kms = map (\<lambda>km. ncols (f km)) kms"
proof (rule map_cong [OF refl])
  fix km assume "km \<in> set kms"
  from map_of_blocks [OF assms this, of f]
  show "width_of (map (\<lambda>km. (fst km, f km)) kms) km = ncols (f km)"
    by (simp add: width_of_def dict_get_def)
qed

lemma sum_list_concat_widths:
  "j < a + sum_list ws \<Longrightarrow> a \<le> j \<Longrightarrow>
   \<exists>!i. i < length ws \<and> in_slice j (concat_widths a ws ! i)"
proof (induction ws arbitrary: a)
  case Nil
  then show ?case by simp
next
  case (Cons w ws)
  show ?case
  proof (cases "j < a + w")
    case True
    have later: "\<not> in_slice j (concat_widths (a + w) ws ! i)" if "i < length ws" for i
      using that True
    proof (induction ws arbitrary: a w i)
      case Nil then show ?case by simp
    next
      case (Cons v vs)
      show ?case
      proof (cases i)
        case 0 then show ?thesis using Cons.prems by (simp add: in_slice_def)
      next
        case (Suc n)
        have "j < (a + w) + v" using Cons.prems(2) by simp
        from Cons.IH [of n "a + w" v] this Cons.prems(1) Suc
        show ?thesis by (simp add: add.assoc)
      qed
    qed
    show ?thesis
    proof (rule ex1I [of _ 0])
      show "0 < length (w # ws) \<and> in_slice j (concat_widths a (w # ws) ! 0)"
        using True Cons.prems by (simp add: in_slice_def)
    next
      fix i assume i: "i < length (w # ws) \<and> in_slice j (concat_widths a (w # ws) ! i)"
      show "i = 0"
      proof (cases i)
        case 0 then show ?thesis .
      next
        case (Suc n)
        with i later [of n] show ?thesis by simp
      qed
    qed
  next
    case False
    then have "j < (a + w) + sum_list ws" "a + w \<le> j" using Cons.prems by simp_all
    from Cons.IH [OF this] obtain i where
      i: "i < length ws" "in_slice j (concat_widths (a + w) ws ! i)" and
      uniq: "\<And>i'. i' < length ws \<Longrightarrow> in_slice j (concat_widths (a + w) ws ! i') \<Longrightarrow> i' = i"
      by blast
    show ?thesis
    proof (rule ex1I [of _ "Suc i"])
      show "Suc i < length (w # ws) \<and> in_slice j (concat_widths a (w # ws) ! Suc i)"
        using i by simp
    next
      fix i' assume a': "i' < length (w # ws) \<and> in_slice j (concat_widths a (w # ws) ! i')"
      show "i' = Suc i"
      proof (cases i')
        case 0 with a' False show ?thesis by (simp add: in_slice_def)
      next
        case (Suc n) with a' uniq [of n] show ?thesis by simp
      qed
    qed
  qed
qed

lemma concat_widths_bounds:
  "s \<in> set (concat_widths a ws) \<Longrightarrow> a \<le> fst s \<and> fst s \<le> snd s \<and> snd s \<le> a + sum_list ws"
proof (induction ws arbitrary: a)
  case Nil then show ?case by simp
next
  case (Cons w ws)
  then show ?case by fastforce
qed


lemma mapM_length: "mapM f xs = Inr ys \<Longrightarrow> length ys = length xs"
  by (induction xs arbitrary: ys) (auto split: sum.splits)

lemma bind_functions_keys:
  "self_keys (bind_functions psr name priorfn basisfn kms self) = self_keys self \<and>
   self_masks (bind_functions psr name priorfn basisfn kms self) = self_masks self"
  by (induction kms arbitrary: self) (auto simp: Let_def)

lemma construct_basis_keys:
  "construct_basis self ps = Inr self' \<Longrightarrow>
   self_keys self' = self_keys self \<and> self_masks self' = self_masks self \<and>
   self_bases self' = self_bases self \<and> self_coefficients self' = self_coefficients self"
  by (auto simp: construct_basis_def Let_def split: sum.splits list.splits prod.splits)

lemma make_coefficients_keys:
  "make_coefficients psr name keys self = Inr self' \<Longrightarrow>
   self_keys self' = self_keys self \<and> self_masks self' = self_masks self"
proof (induction keys arbitrary: self)
  case Nil then show ?case by simp
next
  case (Cons key keys)
  then show ?case by (fastforce simp: Let_def split: sum.splits)
qed

lemma do_selection_keys:
  assumes "do_selection psr name priorfn basisfn coefficients selection = Inr self"
  shows "self_keys self = sort (dict_keys (selection psr)) \<and>
         length (self_masks self) = length (self_keys self)"
proof -
  let ?keys = "sort (dict_keys (selection psr))"
  from assms obtain masks where m: "mapM (dict_get (selection psr)) ?keys = Inr masks"
    by (auto simp: do_selection_def Let_def split: sum.splits)
  let ?self0 = "\<lparr>self_keys = ?keys, self_masks = masks, self_prior = [],
                 self_bases = [], self_params = [], self_coefficients = [],
                 self_basis = np_zeros2 0 0, self_labels = [], self_phi = Array1 [],
                 self_slices = []\<rparr>"
  let ?self1 = "bind_functions psr name priorfn basisfn (zip ?keys masks) ?self0"
  have k1: "self_keys ?self1 = ?keys" "self_masks ?self1 = masks"
    using bind_functions_keys [of psr name priorfn basisfn "zip ?keys masks" ?self0] by simp_all
  have len: "length masks = length ?keys" using mapM_length [OF m] .
  show ?thesis
  proof (cases coefficients)
    case False
    then have "self = ?self1" using assms m by (simp add: do_selection_def Let_def)
    then show ?thesis using k1 len by simp
  next
    case True
    then obtain self2 where c: "construct_basis ?self1 (\<lambda>_. None) = Inr self2"
      and mk: "make_coefficients psr name (self_keys self2) self2 = Inr self"
      using assms m by (auto simp: do_selection_def Let_def split: sum.splits)
    from construct_basis_keys [OF c] make_coefficients_keys [OF mk] k1 len
    show ?thesis by simp
  qed
qed

lemma construct_basis_slices:
  assumes d: "distinct (self_keys self)"
      and len: "length (self_masks self) = length (self_keys self)"
      and c: "construct_basis self ps = Inr self'"
  shows "self_slices self' = zip (self_keys self) (concat_widths 0 (basis_widths self ps))"
    and "ncols (self_basis self') = sum_list (basis_widths self ps)"
proof -
  let ?kms = "zip (self_keys self) (self_masks self)"
  have fst_kms: "map fst ?kms = self_keys self" using len by simp
  have dk: "distinct (map fst ?kms)" using d fst_kms by simp
  from c obtain basis labels where
    cb: "call_bases (self_bases self) ps ?kms [] [] = Inr (basis, labels)"
    by (auto simp: construct_basis_def Let_def split: sum.splits)
  from c cb obtain m0 ms where ms: "self_masks self = m0 # ms"
    by (auto simp: construct_basis_def Let_def split: list.splits)
  let ?nc = "sum_list (map ncols (dict_values basis))"
  from c cb ms obtain B slices where
    fb: "fill_basis basis ?kms (np_zeros2 (length m0) ?nc) [] 0 = Inr (B, slices)"
    and res: "self_basis self' = B" "self_slices self' = slices"
    by (auto simp: construct_basis_def Let_def split: sum.splits)
  have basis: "basis = map (\<lambda>km. (fst km, block (self_bases self) ps km)) ?kms"
    using call_bases_result [OF cb dk] by simp
  have widths: "map (width_of basis) ?kms = basis_widths self ps"
    unfolding basis basis_widths_def by (rule width_of_blocks [OF dk])
  have nc: "?nc = sum_list (basis_widths self ps)"
    unfolding basis basis_widths_def dict_values_def by (simp add: comp_def)
  from fill_basis_result [OF fb dk] widths fst_kms
  have "slices = zip (self_keys self) (concat_widths 0 (basis_widths self ps))"
    and "ncols B = ncols (np_zeros2 (length m0) ?nc)" by simp_all
  then show "self_slices self' = zip (self_keys self) (concat_widths 0 (basis_widths self ps))"
    and "ncols (self_basis self') = sum_list (basis_widths self ps)"
    using res nc by (simp_all add: np_zeros2_def)
qed

lemma zip_lookup_unique:
  assumes d: "distinct ks" and len: "length ss = length ks"
      and u: "\<exists>!i. i < length ss \<and> P (ss ! i)"
  shows "\<exists>!k. \<exists>s. dict_get (zip ks ss) k = Inr s \<and> P s"
proof -
  from u obtain i where i: "i < length ss" "P (ss ! i)"
    and uniq: "\<And>i'. i' < length ss \<Longrightarrow> P (ss ! i') \<Longrightarrow> i' = i" by blast
  have look: "map_of (zip ks ss) (ks ! n) = Some (ss ! n)" if "n < length ss" for n
    using map_of_zip_nth [OF len [symmetric] d that] .
  show ?thesis
  proof (rule ex1I [of _ "ks ! i"])
    show "\<exists>s. dict_get (zip ks ss) (ks ! i) = Inr s \<and> P s"
      using look [OF i(1)] i(2) by (simp add: dict_get_def)
  next
    fix k assume "\<exists>s. dict_get (zip ks ss) k = Inr s \<and> P s"
    then obtain s where s: "map_of (zip ks ss) k = Some s" "P s"
      by (auto simp: dict_get_def split: option.splits)
    from s(1) have "k \<in> set ks" by (meson map_of_SomeD set_zip_leftD)
    then obtain n where n: "n < length ks" "ks ! n = k" by (auto simp: in_set_conv_nth)
    then have "ss ! n = s" using look [of n] s(1) len by simp
    then have "n = i" using uniq [of n] n len s(2) by simp
    then show "k = ks ! i" using n by simp
  qed
qed

lemma demo_basisfn_call:
  "bf_call (demo_basisfn n p) ps (True # m) = (Matrix 1 1 [[2]], [1])"
  "bf_call (demo_basisfn n p) ps (False # m) = (Matrix 1 2 [[3, 5]], [1, 2])"
  "bf_params (demo_basisfn n p) = []"
  "pf_params (demo_priorfn n p) = []"
  by (simp_all add: demo_basisfn_def demo_priorfn_def)

lemmas demo_eval = demo_basisfn_call do_selection_def demo_selection_def dict_keys_def
  dict_get_def Let_def construct_basis_def demo_self_def py_join_def demo_psr_def
  np_zeros2_def np_set_masked_cols_def broadcast_to2_def dict_values_def
  KernelMatrix_def GPCoefficients_def

text \<open>
  Claim C1. For an instance built by \<^verbatim>\<open>_do_selection\<close> (keys are the sorted keys of the
  selection's masks), after any successful \<^verbatim>\<open>_construct_basis\<close> the recorded slices
  are listed in sorted-key order, they are the ranges obtained by concatenating the keys'
  basis widths from column 0, the combined basis has as many columns as the widths sum to,
  every column below that count lies in the slice of exactly one key (no gap, no overlap),
  and every slice is a half-open range inside the matrix.
\<close>

theorem slices_partition_columns:
  assumes sel: "do_selection psr name priorfn basisfn coefficients selection = Inr self"
      and c: "construct_basis self ps = Inr self'"
  shows "map fst (self_slices self') = sort (dict_keys (selection psr)) \<and>
         map snd (self_slices self') = concat_widths 0 (basis_widths self ps) \<and>
         ncols (self_basis self') = sum_list (basis_widths self ps) \<and>
         (\<forall>j < ncols (self_basis self').
            \<exists>!key. \<exists>s. dict_get (self_slices self') key = Inr s \<and> in_slice j s) \<and>
         (\<forall>s \<in> set (dict_values (self_slices self')).
            fst s \<le> snd s \<and> snd s \<le> ncols (self_basis self'))"
proof -
  let ?ws = "basis_widths self ps"
  let ?ss = "concat_widths 0 ?ws"
  from do_selection_keys [OF sel] have keys: "self_keys self = sort (dict_keys (selection psr))"
    and len: "length (self_masks self) = length (self_keys self)" by simp_all
  have d: "distinct (self_keys self)" unfolding keys dict_keys_def by simp
  note sl = construct_basis_slices [OF d len c]
  have lw: "length ?ss = length (self_keys self)"
    using len by (simp add: basis_widths_def)
  have p1: "map fst (self_slices self') = sort (dict_keys (selection psr))"
    using sl(1) lw keys by simp
  have p2: "map snd (self_slices self') = ?ss" using sl(1) lw by simp
  have p4: "\<exists>!key. \<exists>s. dict_get (self_slices self') key = Inr s \<and> in_slice j s"
    if "j < ncols (self_basis self')" for j
  proof -
    from that sl(2) have "j < 0 + sum_list ?ws" by simp
    from sum_list_concat_widths [OF this] 
    have "\<exists>!i. i < length ?ss \<and> in_slice j (?ss ! i)" by simp
    from zip_lookup_unique [OF d lw, of "in_slice j", OF this] sl(1) show ?thesis by simp
  qed
  have p5: "fst s \<le> snd s \<and> snd s \<le> ncols (self_basis self')"
    if "s \<in> set (dict_values (self_slices self'))" for s
  proof -
    from that p2 have "s \<in> set ?ss" by (simp add: dict_values_def)
    from concat_widths_bounds [OF this] sl(2) show ?thesis by simp
  qed
  show ?thesis using p1 p2 sl(2) p4 p5 by blast
qed

theorem slices_partition_columns_witness:
  "do_selection demo_psr ''gp'' demo_priorfn demo_basisfn True demo_selection = Inr demo_self \<and>
   construct_basis demo_self Map.empty = Inr demo_self \<and>
   self_slices demo_self = [(''a'', (0, 1)), (''b'', (1, 3))] \<and>
   map fst (self_slices demo_self) = sort (dict_keys (demo_selection demo_psr)) \<and>
   map snd (self_slices demo_self) = concat_widths 0 (basis_widths demo_self Map.empty) \<and>
   ncols (self_basis demo_self) = sum_list (basis_widths demo_self Map.empty) \<and>
   ncols (self_basis demo_self) = 3 \<and>
   (\<exists>!key. \<exists>s. dict_get (self_slices demo_self) key = Inr s \<and> in_slice 2 s)"
proof -
  have h1: "do_selection demo_psr ''gp'' demo_priorfn demo_basisfn True demo_selection = Inr demo_self"
    by (simp add: demo_eval)
  have h2: "construct_basis demo_self Map.empty = Inr demo_self"
    by (simp add: demo_eval)
  have h3: "self_slices demo_self = [(''a'', (0, 1)), (''b'', (1, 3))]"
    and h4: "ncols (self_basis demo_self) = 3"
    by (simp_all add: demo_self_def)
  note t = slices_partition_columns [OF h1 h2]
  from t h4 have "\<exists>!key. \<exists>s. dict_get (self_slices demo_self) key = Inr s \<and> in_slice 2 s"
    by simp
  with t h1 h2 h3 h4 show ?thesis by blast
qed

section \<open>The coefficient log-prior\<close>

lemma np_binop_vec:
  "length u = length v \<Longrightarrow> np_binop f (Array1 u) (Array1 v) = Inr (Array1 (map2 f u v))"
  by (simp add: np_binop_def bdim_def broadcast_to2_def of_rows_def)

lemma np_binop_scalar:
  "np_binop f (Array0 a) (Array0 b) = Inr (Array0 (f a b))"
  by (simp add: np_binop_def bdim_def broadcast_to2_def of_rows_def)

lemma sum_list_map2_nth:
  "length xs = length ys \<Longrightarrow> sum_list (map2 f xs ys) = (\<Sum>i < length xs. f (xs ! i) (ys ! i))"
proof -
  assume len: "length xs = length ys"
  have "sum_list (map2 f xs ys) = (\<Sum>i = 0..<length (map2 f xs ys). map2 f xs ys ! i)"
    by (rule sum_list_sum_nth)
  also have "\<dots> = (\<Sum>i = 0..<length xs. f (xs ! i) (ys ! i))"
    using len by (intro sum.cong) simp_all
  finally show ?thesis by (simp add: atLeast0LessThan)
qed

lemma sum_list_map_nth:
  "sum_list (map f xs) = (\<Sum>i < length xs. f (xs ! i))"
proof -
  have "sum_list (map f xs) = (\<Sum>i = 0..<length (map f xs). map f xs ! i)"
    by (rule sum_list_sum_nth)
  also have "\<dots> = (\<Sum>i = 0..<length xs. f (xs ! i))"
    by (intro sum.cong) simp_all
  finally show ?thesis by (simp add: atLeast0LessThan)
qed

lemma dotv_nth: "length u = length v \<Longrightarrow> dotv u v = (\<Sum>i < length u. u ! i * v ! i)"
  unfolding dotv_def by (rule sum_list_map2_nth)

lemma diagonal_branch:
  assumes len: "length c = length phi" and pos: "list_all (\<lambda>x. 0 < x) phi"
  shows "np_multiply (Array1 c) (Array1 c) = Inr (Array1 (map2 (*) c c))"
    and "np_divide (Array1 (map2 (*) c c)) (Array1 phi) = Inr (Array1 (map2 (/) (map2 (*) c c) phi))"
    and "np_log (Array1 phi) = Inr (Array1 (map ln phi))"
    and "np_sum (Array1 (map2 (/) (map2 (*) c c) phi)) = (\<Sum>i < length phi. c ! i * c ! i / phi ! i)"
    and "np_sum (Array1 (map ln phi)) = (\<Sum>i < length phi. ln (phi ! i))"
proof -
  show "np_multiply (Array1 c) (Array1 c) = Inr (Array1 (map2 (*) c c))"
    by (simp add: np_multiply_def np_binop_vec)
  have nz: "0 \<notin> set phi" using pos by (auto simp: list_all_iff)
  show "np_divide (Array1 (map2 (*) c c)) (Array1 phi) = Inr (Array1 (map2 (/) (map2 (*) c c) phi))"
    using nz len by (simp add: np_divide_def np_binop_vec)
  show "np_log (Array1 phi) = Inr (Array1 (map ln phi))"
    using pos by (simp add: np_log_def)
  have "sum_list (map2 (/) (map2 (*) c c) phi) =
        (\<Sum>i < length (map2 (*) c c). map2 (*) c c ! i / phi ! i)"
    using len by (intro sum_list_map2_nth) simp
  also have "\<dots> = (\<Sum>i < length phi. c ! i * c ! i / phi ! i)"
    using len by (intro sum.cong) simp_all
  finally show "np_sum (Array1 (map2 (/) (map2 (*) c c) phi)) = (\<Sum>i < length phi. c ! i * c ! i / phi ! i)"
    by (simp add: np_sum_def)
  show "np_sum (Array1 (map ln phi)) = (\<Sum>i < length phi. ln (phi ! i))"
    by (simp add: np_sum_def sum_list_map_nth)
qed

lemma full_branch:
  assumes wf: "wf_matrix phiinv" and nr: "nrows phiinv = length c" and nc: "ncols phiinv = length c"
  shows "np_dot (Array2 phiinv) (Array1 c) = Inr (Array1 (map (\<lambda>r. dotv r c) (rows phiinv)))"
    and "np_dot (Array1 c) (Array1 (map (\<lambda>r. dotv r c) (rows phiinv))) =
         Inr (Array0 (\<Sum>i < length c. c ! i * (\<Sum>j < length c. rows phiinv ! i ! j * c ! j)))"
proof -
  show "np_dot (Array2 phiinv) (Array1 c) = Inr (Array1 (map (\<lambda>r. dotv r c) (rows phiinv)))"
    using nc by simp
  have lr: "length (rows phiinv) = length c" using wf nr by (simp add: wf_matrix_def)
  have row: "length (rows phiinv ! i) = length c" if "i < length c" for i
    using wf nc lr that by (simp add: wf_matrix_def list_all_length)
  have "dotv c (map (\<lambda>r. dotv r c) (rows phiinv)) =
        (\<Sum>i < length c. c ! i * map (\<lambda>r. dotv r c) (rows phiinv) ! i)"
    using lr by (intro dotv_nth) simp
  also have "\<dots> = (\<Sum>i < length c. c ! i * (\<Sum>j < length c. rows phiinv ! i ! j * c ! j))"
  proof (intro sum.cong refl)
    fix i assume "i \<in> {..<length c}"
    then have i: "i < length c" by simp
    then have "map (\<lambda>r. dotv r c) (rows phiinv) ! i = dotv (rows phiinv ! i) c"
      using lr by simp
    also have "\<dots> = (\<Sum>j < length c. rows phiinv ! i ! j * c ! j)"
      using dotv_nth [of "rows phiinv ! i" c] row [OF i] by simp
    finally show "c ! i * map (\<lambda>r. dotv r c) (rows phiinv) ! i =
        c ! i * (\<Sum>j < length c. rows phiinv ! i ! j * c ! j)" by simp
  qed
  finally show "np_dot (Array1 c) (Array1 (map (\<lambda>r. dotv r c) (rows phiinv))) =
         Inr (Array0 (\<Sum>i < length c. c ! i * (\<Sum>j < length c. rows phiinv ! i ! j * c ! j)))"
    using lr by simp
qed

text \<open>
  Claim C9. In coefficient mode, with \<open>phi\<close> the value of the key's prior on the key's
  labels: when \<open>phi\<close> is 1-D with positive entries and as long as \<open>c\<close>, the log-prior is
  \<open>-0.5 * sum(c * c / phi) - 0.5 * sum(log(phi)) - 0.5 * n * log(2 * pi)\<close> with
  \<open>n = len(phi)\<close>; when \<open>phi\<close> is 2-D, it is
  \<open>-0.5 * c^T * phiinv * c - 0.5 * logdet - 0.5 * n * log(2 * pi)\<close> with \<open>phiinv\<close> and
  \<open>logdet\<close> as the prior's own inversion returns them and \<open>n\<close> the number of rows of
  \<open>phi\<close>.
\<close>

theorem coefficient_logprior_density:
  assumes cb: "construct_basis self ps = Inr self'"
      and pr: "dict_get (self_prior self') key = Inr pr"
      and lb: "dict_get (self_labels self') key = Inr l"
  shows "(\<forall>phi. pf_call pr l ps None = Array1 phi \<and> length c = length phi \<and>
                list_all (\<lambda>x. 0 < x) phi \<longrightarrow>
            get_coefficient_logprior kernel_inv self key c ps =
              Inr (Array0 (diagonal_logdensity c phi), self')) \<and>
         (\<forall>phi phiinv logdet.
            pf_call pr l ps None = Array2 phi \<and>
            kernel_inv (Array2 phi) = Inr (Array2 phiinv, logdet) \<and>
            wf_matrix phiinv \<and> nrows phiinv = length c \<and> ncols phiinv = length c \<longrightarrow>
            get_coefficient_logprior kernel_inv self key c ps =
              Inr (Array0 (full_logdensity c phiinv logdet (nrows phi)), self'))"
proof (intro conjI allI impI)
  fix phi
  assume a: "pf_call pr l ps None = Array1 phi \<and> length c = length phi \<and>
             list_all (\<lambda>x. 0 < x) phi"
  then have len: "length c = length phi" and pos: "list_all (\<lambda>x. 0 < x) phi" by simp_all
  note d = diagonal_branch [OF len pos]
  show "get_coefficient_logprior kernel_inv self key c ps =
          Inr (Array0 (diagonal_logdensity c phi), self')"
    using a cb pr lb d
    by (simp add: get_coefficient_logprior_def diagonal_logdensity_def)
next
  fix phi phiinv logdet
  assume a: "pf_call pr l ps None = Array2 phi \<and>
            kernel_inv (Array2 phi) = Inr (Array2 phiinv, logdet) \<and>
            wf_matrix phiinv \<and> nrows phiinv = length c \<and> ncols phiinv = length c"
  then have wf: "wf_matrix phiinv" and nr: "nrows phiinv = length c"
    and nc: "ncols phiinv = length c" by simp_all
  note f = full_branch [OF wf nr nc]
  show "get_coefficient_logprior kernel_inv self key c ps =
          Inr (Array0 (full_logdensity c phiinv logdet (nrows phi)), self')"
    using a cb pr lb f
    by (simp add: get_coefficient_logprior_def full_logdensity_def np_multiply_def
        np_subtract_def np_binop_scalar shape0_def)
qed

theorem coefficient_logprior_density_witness:
  "construct_basis demo_self Map.empty = Inr demo_self \<and>
   dict_get (self_prior demo_self) ''b'' = Inr (demo_priorfn ''J1_gp_b'' demo_psr) \<and>
   dict_get (self_labels demo_self) ''b'' = Inr [1, 2] \<and>
   pf_call (demo_priorfn ''J1_gp_b'' demo_psr) [1, 2] Map.empty None = Array1 [1, 1] \<and>
   get_coefficient_logprior demo_kernel_inv demo_self ''b'' [0, 0] Map.empty =
     Inr (Array0 (- ln (2 * pi)), demo_self) \<and>
   construct_basis demo_self2 Map.empty = Inr demo_self2 \<and>
   pf_call (demo_priorfn2 ''J1_gp_b'' demo_psr) [1, 2] Map.empty None =
     Array2 (Matrix 2 2 [[2, 0], [0, 2]]) \<and>
   demo_kernel_inv (Array2 (Matrix 2 2 [[2, 0], [0, 2]])) =
     Inr (Array2 (Matrix 2 2 [[1 / 2, 0], [0, 1 / 2]]), ln 4) \<and>
   get_coefficient_logprior demo_kernel_inv demo_self2 ''b'' [1, 1] Map.empty =
     Inr (Array0 (- (1 / 2) - (1 / 2) * ln 4 - ln (2 * pi)), demo_self2)"
proof -
  have h1: "construct_basis demo_self Map.empty = Inr demo_self"
    by (simp add: demo_eval)
  have h2: "dict_get (self_prior demo_self) ''b'' = Inr (demo_priorfn ''J1_gp_b'' demo_psr)"
    and h3: "dict_get (self_labels demo_self) ''b'' = Inr [1, 2]"
    by (simp_all add: demo_self_def dict_get_def)
  have h4: "pf_call (demo_priorfn ''J1_gp_b'' demo_psr) [1, 2] Map.empty None = Array1 [1, 1]"
    by (simp add: demo_priorfn_def)
  have v1: "diagonal_logdensity [0, 0] [1, 1] = - ln (2 * pi)"
    by (simp add: diagonal_logdensity_def)
  from coefficient_logprior_density [OF h1 h2 h3, of "[0, 0]" demo_kernel_inv] h4 v1
  have r1: "get_coefficient_logprior demo_kernel_inv demo_self ''b'' [0, 0] Map.empty =
     Inr (Array0 (- ln (2 * pi)), demo_self)" by simp
  have g1: "construct_basis demo_self2 Map.empty = Inr demo_self2"
    by (simp add: demo_self2_def demo_eval)
  have g2: "dict_get (self_prior demo_self2) ''b'' = Inr (demo_priorfn2 ''J1_gp_b'' demo_psr)"
    and g3: "dict_get (self_labels demo_self2) ''b'' = Inr [1, 2]"
    by (simp_all add: demo_self2_def demo_self_def dict_get_def)
  have g4: "pf_call (demo_priorfn2 ''J1_gp_b'' demo_psr) [1, 2] Map.empty None =
     Array2 (Matrix 2 2 [[2, 0], [0, 2]])"
    by (simp add: demo_priorfn2_def)
  have g5: "demo_kernel_inv (Array2 (Matrix 2 2 [[2, 0], [0, 2]])) =
     Inr (Array2 (Matrix 2 2 [[1 / 2, 0], [0, 1 / 2]]), ln 4)"
    by (simp add: demo_kernel_inv_def)
  have v2: "full_logdensity [1, 1] (Matrix 2 2 [[1 / 2, 0], [0, 1 / 2]]) (ln 4) 2 =
      - (1 / 2) - (1 / 2) * ln 4 - ln (2 * pi)"
    by (simp add: full_logdensity_def lessThan_Suc numeral_2_eq_2)
  from coefficient_logprior_density [OF g1 g2 g3, of "[1, 1]" demo_kernel_inv] g4 g5 v2
  have r2: "get_coefficient_logprior demo_kernel_inv demo_self2 ''b'' [1, 1] Map.empty =
     Inr (Array0 (- (1 / 2) - (1 / 2) * ln 4 - ln (2 * pi)), demo_self2)"
    by (simp add: wf_matrix_def)
  from h1 h2 h3 h4 r1 g1 g4 g5 r2 show ?thesis by blast
qed

section \<open>The delay of a coefficient-mode signal\<close>

lemma np_set_slice_result:
  assumes "a + w \<le> length c0" and "np_set_slice c0 (a, a + w) v = Inr c1"
  shows "c1 = take a c0 @ broadcast_value v w @ drop (a + w) c0"
    and "length (broadcast_value v w) = w"
  using assms
  by (auto simp: np_set_slice_def broadcast_value_def Let_def min_def max_def
      split: pyval.splits if_splits)

lemma np_set_slice_length:
  "np_set_slice c0 s v = Inr c1 \<Longrightarrow> length c1 = length c0"
  by (auto simp: np_set_slice_def Let_def split: pyval.splits if_splits)

lemma assign_coefficients_length:
  "assign_coefficients coeffs ps items c0 = Inr c \<Longrightarrow> length c = length c0"
proof (induction items arbitrary: c0)
  case Nil then show ?case by simp
next
  case (Cons it items)
  obtain key slc where it: "it = (key, slc)" by (cases it)
  from Cons.prems it obtain p where p: "dict_get coeffs key = Inr p"
    by (auto split: sum.splits)
  from Cons.prems it p obtain c1 where
    "np_set_slice c0 slc (case ps (par_name p) of Some v \<Rightarrow> v | None \<Rightarrow> par_value p) = Inr c1"
    "assign_coefficients coeffs ps items c1 = Inr c"
    by (auto split: sum.splits)
  then show ?case using Cons.IH np_set_slice_length by fastforce
qed

lemma assign_coefficients_slices:
  assumes "length ks = length ws" and "a + sum_list ws \<le> length c0"
      and "assign_coefficients coeffs ps (zip ks (concat_widths a ws)) c0 = Inr c"
  shows "take a c = take a c0 \<and>
         (\<forall>i < length ws. \<exists>p. dict_get coeffs (ks ! i) = Inr p \<and>
            np_get_slice c (concat_widths a ws ! i) = broadcast_value (sampled_or_point ps p) (ws ! i))"
  using assms
proof (induction ws arbitrary: a ks c0)
  case Nil then show ?case by simp
next
  case (Cons w ws)
  from Cons.prems(1) obtain k ks' where ks: "ks = k # ks'" and len: "length ks' = length ws"
    by (cases ks) auto
  from Cons.prems(3) ks obtain p where p: "dict_get coeffs k = Inr p"
    by (auto split: sum.splits)
  let ?v = "sampled_or_point ps p"
  from Cons.prems(3) ks p obtain c1 where
    c1: "np_set_slice c0 (a, a + w) ?v = Inr c1" and
    rest: "assign_coefficients coeffs ps (zip ks' (concat_widths (a + w) ws)) c1 = Inr c"
    by (auto simp: sampled_or_point_def split: sum.splits)
  have aw: "a + w \<le> length c0" using Cons.prems(2) by simp
  note r = np_set_slice_result [OF aw c1]
  have l1: "length c1 = length c0" using np_set_slice_length [OF c1] .
  have "(a + w) + sum_list ws \<le> length c1" using Cons.prems(2) l1 by simp
  from Cons.IH [OF len this rest]
  have tk: "take (a + w) c = take (a + w) c1"
    and later: "\<And>i. i < length ws \<Longrightarrow> \<exists>p. dict_get coeffs (ks' ! i) = Inr p \<and>
       np_get_slice c (concat_widths (a + w) ws ! i) = broadcast_value (sampled_or_point ps p) (ws ! i)"
    by blast+
  have tk1: "take (a + w) c1 = take a c0 @ broadcast_value ?v w"
    using r aw by simp
  have "take a c = take a (take (a + w) c)" by (simp add: min_def)
  also have "\<dots> = take a c0" using tk tk1 aw by simp
  finally have pre: "take a c = take a c0" .
  have "np_get_slice c (a, a + w) = drop a (take (a + w) c)"
    by (simp add: np_get_slice_def drop_take)
  also have "\<dots> = broadcast_value ?v w" using tk tk1 aw by simp
  finally have here: "np_get_slice c (a, a + w) = broadcast_value ?v w" .
  have "\<exists>p. dict_get coeffs (ks ! i) = Inr p \<and>
          np_get_slice c (concat_widths a (w # ws) ! i) =
          broadcast_value (sampled_or_point ps p) ((w # ws) ! i)"
    if "i < length (w # ws)" for i
  proof (cases i)
    case 0
    then show ?thesis using ks p here by auto
  next
    case (Suc n)
    then show ?thesis using ks later [of n] that by simp
  qed
  with pre show ?case by blast
qed

lemma concat_widths_width:
  "i < length ws \<Longrightarrow> snd (concat_widths a ws ! i) - fst (concat_widths a ws ! i) = ws ! i"
proof (induction ws arbitrary: a i)
  case Nil then show ?case by simp
next
  case (Cons w ws)
  then show ?case by (cases i) simp_all
qed

lemma do_selection_invariant:
  assumes "do_selection psr name priorfn basisfn coefficients selection = Inr self"
  shows "instance_invariant self"
  using do_selection_keys [OF assms] by (simp add: instance_invariant_def dict_keys_def)

lemma get_delay_invariant:
  assumes "instance_invariant self" and "get_delay coefficients self ps = Inr (d, self')"
  shows "instance_invariant self'"
proof (cases coefficients)
  case True
  with assms(2) have "construct_basis self ps = Inr self'"
    by (auto simp: get_delay_def split: sum.splits)
  from construct_basis_keys [OF this] assms(1) show ?thesis
    by (simp add: instance_invariant_def)
next
  case False
  with assms show ?thesis by (simp add: get_delay_def)
qed

text \<open>
  Claim C3. In coefficient mode, a \<^verbatim>\<open>get_delay(params)\<close> that returns gives the
  matrix-vector product of the combined basis with a vector \<open>c\<close> of one entry per
  column, in which the slice of each key holds the value of that key's coefficient
  parameter: the sampled value when the parameter's name is in \<^verbatim>\<open>params\<close>, the
  parameter's current value otherwise. A value of the slice's length is there as it is (a
  scalar or one-element value is repeated over the slice, as numpy assigns it).
\<close>

theorem coefficient_delay:
  assumes inv: "instance_invariant self"
      and gd: "get_delay True self ps = Inr (d, self')"
  shows "\<exists>c. length c = ncols (self_basis self') \<and>
             d = RArray (Array1 (map (\<lambda>r. dotv r c) (rows (self_basis self')))) \<and>
             (\<forall>key \<in> set (self_keys self').
                \<exists>slc p. dict_get (self_slices self') key = Inr slc \<and>
                        dict_get (self_coefficients self') key = Inr p \<and>
                        np_get_slice c slc =
                          broadcast_value (sampled_or_point ps p) (snd slc - fst slc) \<and>
                        (\<forall>xs. sampled_or_point ps p = PArray xs \<and>
                              length xs = snd slc - fst slc \<longrightarrow> np_get_slice c slc = xs))"
proof -
  let ?ws = "basis_widths self ps"
  let ?ss = "concat_widths 0 ?ws"
  from gd obtain c dd where
    cb: "construct_basis self ps = Inr self'" and
    ac: "assign_coefficients (self_coefficients self') ps (self_slices self')
           (np_zeros (ncols (self_basis self'))) = Inr c" and
    dot: "np_dot (Array2 (self_basis self')) (Array1 c) = Inr dd" and
    d: "d = RArray dd"
    by (auto simp: get_delay_def split: sum.splits)
  from inv have len: "length (self_masks self) = length (self_keys self)"
    and dk: "distinct (self_keys self)" by (simp_all add: instance_invariant_def)
  note sl = construct_basis_slices [OF dk len cb]
  have k': "self_keys self' = self_keys self" using construct_basis_keys [OF cb] by simp
  have lw: "length (self_keys self) = length ?ws" using len by (simp add: basis_widths_def)
  have lc: "length c = ncols (self_basis self')"
    using assign_coefficients_length [OF ac] by (simp add: np_zeros_def)
  have dd: "dd = Array1 (map (\<lambda>r. dotv r c) (rows (self_basis self')))"
    using dot lc by simp
  have "0 + sum_list ?ws \<le> length (np_zeros (ncols (self_basis self')))"
    using sl(2) by (simp add: np_zeros_def)
  from assign_coefficients_slices [OF lw this] ac sl(1)
  have each: "\<And>i. i < length ?ws \<Longrightarrow> \<exists>p. dict_get (self_coefficients self') (self_keys self ! i) = Inr p \<and>
            np_get_slice c (?ss ! i) = broadcast_value (sampled_or_point ps p) (?ws ! i)"
    by simp
  show ?thesis
  proof (intro exI [of _ c] conjI ballI)
    show "length c = ncols (self_basis self')" by (rule lc)
    show "d = RArray (Array1 (map (\<lambda>r. dotv r c) (rows (self_basis self'))))"
      using d dd by simp
  next
    fix key assume "key \<in> set (self_keys self')"
    then obtain i where i: "i < length (self_keys self)" "self_keys self ! i = key"
      using k' by (auto simp: in_set_conv_nth)
    have iw: "i < length ?ws" using i lw by simp
    from each [OF iw] i obtain p where
      p: "dict_get (self_coefficients self') key = Inr p" and
      g: "np_get_slice c (?ss ! i) = broadcast_value (sampled_or_point ps p) (?ws ! i)"
      by auto
    have look: "dict_get (self_slices self') key = Inr (?ss ! i)"
      using map_of_zip_nth [of "self_keys self" ?ss i] dk lw i sl(1)
      by (simp add: dict_get_def)
    have w: "snd (?ss ! i) - fst (?ss ! i) = ?ws ! i"
      by (rule concat_widths_width [OF iw])
    have exact: "\<forall>xs. sampled_or_point ps p = PArray xs \<and> length xs = snd (?ss ! i) - fst (?ss ! i)
        \<longrightarrow> np_get_slice c (?ss ! i) = xs"
      using g w by (simp add: broadcast_value_def)
    show "\<exists>slc p. dict_get (self_slices self') key = Inr slc \<and>
            dict_get (self_coefficients self') key = Inr p \<and>
            np_get_slice c slc = broadcast_value (sampled_or_point ps p) (snd slc - fst slc) \<and>
            (\<forall>xs. sampled_or_point ps p = PArray xs \<and> length xs = snd slc - fst slc
               \<longrightarrow> np_get_slice c slc = xs)"
      using look p g w exact by auto
  qed
qed

theorem coefficient_delay_witness:
  "instance_invariant demo_self3 \<and>
   get_delay True demo_self3 demo_params = Inr (RArray (Array1 [14, 13]), demo_self3) \<and>
   (\<exists>c. length c = ncols (self_basis demo_self3) \<and>
        RArray (Array1 [14, 13]) =
          RArray (Array1 (map (\<lambda>r. dotv r c) (rows (self_basis demo_self3)))) \<and>
        (\<forall>key \<in> set (self_keys demo_self3).
           \<exists>slc p. dict_get (self_slices demo_self3) key = Inr slc \<and>
                   dict_get (self_coefficients demo_self3) key = Inr p \<and>
                   np_get_slice c slc =
                     broadcast_value (sampled_or_point demo_params p) (snd slc - fst slc) \<and>
                   (\<forall>xs. sampled_or_point demo_params p = PArray xs \<and>
                         length xs = snd slc - fst slc \<longrightarrow> np_get_slice c slc = xs)))"
proof -
  have h1: "instance_invariant demo_self3"
    by (simp add: instance_invariant_def demo_self3_def demo_self_def)
  have cb: "construct_basis demo_self3 demo_params = Inr demo_self3"
    by (simp add: demo_self3_def demo_eval)
  have h2: "get_delay True demo_self3 demo_params = Inr (RArray (Array1 [14, 13]), demo_self3)"
    unfolding get_delay_def cb
    by (simp add: demo_self3_def demo_self_def demo_params_def dict_get_def np_zeros_def
        np_set_slice_def dotv_def Let_def)
  from coefficient_delay [OF h1 h2] h1 h2 show ?thesis by blast
qed

section \<open>The PSD of the FFT variants\<close>

lemma fft_psd_mirror:
  assumes "2 \<le> length freqs" and "prior ((freqs ! 1) # freqs) = Inr (Array1 P)"
      and "2 \<le> length P"
  shows "fft_psd 0 prior freqs = Inr (Array1 (mirror_psd P))"
  using assms by (simp add: fft_psd_def mirror_psd_def)

lemma fft_psd_cut:
  assumes "0 < cb" and "prior (tl freqs) = Inr (Array1 P)"
  shows "fft_psd cb prior freqs = Inr (Array1 (cut_psd (nat cb) P))"
  using assms by (simp add: fft_psd_def cut_psd_def nat_diff_distrib)

lemma cut_psd_bins:
  "length (cut_psd n P) = n + (length P - (n - 1))"
  "i < n \<Longrightarrow> cut_psd n P ! i = 0"
  "0 < n \<Longrightarrow> n \<le> i \<Longrightarrow> i < length (cut_psd n P) \<Longrightarrow> cut_psd n P ! i = P ! (i - 1)"
proof -
  show "length (cut_psd n P) = n + (length P - (n - 1))" by (simp add: cut_psd_def)
  show "i < n \<Longrightarrow> cut_psd n P ! i = 0" by (simp add: cut_psd_def nth_append)
  assume "0 < n" "n \<le> i" "i < length (cut_psd n P)"
  then show "cut_psd n P ! i = P ! (i - 1)"
    by (simp add: cut_psd_def nth_append)
qed

lemma mirror_psd_bins:
  "mirror_psd P ! 0 = - (P ! 1)"
  "0 < i \<Longrightarrow> i + 1 < length P \<Longrightarrow> mirror_psd P ! i = P ! (i + 1)"
  by (simp_all add: mirror_psd_def nth_Cons')

text \<open>
  Claim C4, as amended. In both \<^verbatim>\<open>_construct_prior\<close> methods (the common class, and each
  step of the per-series loop): with \<^verbatim>\<open>cutbins = 0\<close> the prior is evaluated on the grid
  \<open>freqs[1], freqs[0], freqs[1], freqs[2], ...\<close> and the PSD handed to \<^verbatim>\<open>psd2cov\<close> has,
  as its first bin, the negative of the prior's value at index 1 of that grid, which is
  the grid's entry \<open>freqs[0]\<close>, followed by the prior's values from index 2 on, which
  belong to \<open>freqs[1:]\<close>. With \<^verbatim>\<open>cutbins > 0\<close> the prior is evaluated on \<open>freqs[1:]\<close>
  and the PSD has \<open>cutbins\<close> leading zeros, each later bin \<open>i\<close> holding the prior's
  value at index \<open>i - 1\<close>, unmodified.
\<close>

theorem fft_prior_psd:
  "(\<forall>freqs t P.
      cg_freqs self = Some freqs \<and> cg_t_knots self = Some t \<and> cutbins env = 0 \<and>
      2 \<le> length freqs \<and> 2 \<le> length P \<and>
      pf_call (cls_prior cls) ((freqs ! 1) # freqs) ps (Some 1) = Array1 P \<longrightarrow>
      FFTBasisCommonGP_construct_prior env cls self ps =
        Inr (psd2cov env t (Array1 (mirror_psd P)) None)) \<and>
   (\<forall>freqs t P.
      cg_freqs self = Some freqs \<and> cg_t_knots self = Some t \<and> 0 < cutbins env \<and>
      pf_call (cls_prior cls) (tl freqs) ps (Some 1) = Array1 P \<longrightarrow>
      FFTBasisCommonGP_construct_prior env cls self ps =
        Inr (psd2cov env t (Array1 (cut_psd (nat (cutbins env)) P)) None)) \<and>
   (\<forall>t pr P.
      dict_get (self_labels gp) key = Inr t \<and> dict_get (self_prior gp) key = Inr pr \<and>
      cutbins env = 0 \<and>
      2 \<le> length (knots_to_freqs env t (oversample env) (fmax_factor env)) \<and> 2 \<le> length P \<and>
      pf_call pr ((knots_to_freqs env t (oversample env) (fmax_factor env) ! 1)
                  # knots_to_freqs env t (oversample env) (fmax_factor env)) ps (Some 1)
        = Array1 P \<longrightarrow>
      FFTBasisGP_prior_loop env kernel_set gp ps ((key, slc) # items) phi =
        FFTBasisGP_prior_loop env kernel_set gp ps items
          (kernel_set phi (psd2cov env t (Array1 (mirror_psd P)) (Some (fmax_factor env))) slc)) \<and>
   (\<forall>t pr P.
      dict_get (self_labels gp) key = Inr t \<and> dict_get (self_prior gp) key = Inr pr \<and>
      0 < cutbins env \<and>
      pf_call pr (tl (knots_to_freqs env t (oversample env) (fmax_factor env))) ps (Some 1)
        = Array1 P \<longrightarrow>
      FFTBasisGP_prior_loop env kernel_set gp ps ((key, slc) # items) phi =
        FFTBasisGP_prior_loop env kernel_set gp ps items
          (kernel_set phi (psd2cov env t (Array1 (cut_psd (nat (cutbins env)) P))
             (Some (fmax_factor env))) slc)) \<and>
   (\<forall>P freqs. mirror_psd P ! 0 = - (P ! 1) \<and> ((freqs ! 1) # freqs) ! 1 = freqs ! 0 \<and>
       drop 1 (mirror_psd P) = drop 2 P \<and> drop 2 ((freqs ! 1) # freqs) = drop 1 freqs) \<and>
   (\<forall>n P i. 0 < n \<longrightarrow>
       length (cut_psd n P) = n + (length P - (n - 1)) \<and>
       (i < n \<longrightarrow> cut_psd n P ! i = 0) \<and>
       (n \<le> i \<and> i < length (cut_psd n P) \<longrightarrow> cut_psd n P ! i = P ! (i - 1)))"
proof (intro conjI allI impI)
  fix freqs t P
  assume a: "cg_freqs self = Some freqs \<and> cg_t_knots self = Some t \<and> cutbins env = 0 \<and>
      2 \<le> length freqs \<and> 2 \<le> length P \<and>
      pf_call (cls_prior cls) ((freqs ! 1) # freqs) ps (Some 1) = Array1 P"
  then have "fft_psd 0 (\<lambda>fs. Inr (pf_call (cls_prior cls) fs ps (Some 1))) freqs
      = Inr (Array1 (mirror_psd P))"
    by (intro fft_psd_mirror) simp_all
  with a show "FFTBasisCommonGP_construct_prior env cls self ps =
        Inr (psd2cov env t (Array1 (mirror_psd P)) None)"
    by (simp add: FFTBasisCommonGP_construct_prior_def)
next
  fix freqs t P
  assume a: "cg_freqs self = Some freqs \<and> cg_t_knots self = Some t \<and> 0 < cutbins env \<and>
      pf_call (cls_prior cls) (tl freqs) ps (Some 1) = Array1 P"
  then have "fft_psd (cutbins env) (\<lambda>fs. Inr (pf_call (cls_prior cls) fs ps (Some 1))) freqs
      = Inr (Array1 (cut_psd (nat (cutbins env)) P))"
    by (intro fft_psd_cut) simp_all
  with a show "FFTBasisCommonGP_construct_prior env cls self ps =
        Inr (psd2cov env t (Array1 (cut_psd (nat (cutbins env)) P)) None)"
    by (simp add: FFTBasisCommonGP_construct_prior_def)
next
  fix t pr P
  let ?freqs = "knots_to_freqs env t (oversample env) (fmax_factor env)"
  assume a: "dict_get (self_labels gp) key = Inr t \<and> dict_get (self_prior gp) key = Inr pr \<and>
      cutbins env = 0 \<and> 2 \<le> length ?freqs \<and> 2 \<le> length P \<and>
      pf_call pr ((?freqs ! 1) # ?freqs) ps (Some 1) = Array1 P"
  then have "fft_psd 0 (\<lambda>fs. case dict_get (self_prior gp) key of
                              Inl e \<Rightarrow> Inl e
                            | Inr pr \<Rightarrow> Inr (pf_call pr fs ps (Some 1))) ?freqs
      = Inr (Array1 (mirror_psd P))"
    by (intro fft_psd_mirror) simp_all
  with a show "FFTBasisGP_prior_loop env kernel_set gp ps ((key, slc) # items) phi =
        FFTBasisGP_prior_loop env kernel_set gp ps items
          (kernel_set phi (psd2cov env t (Array1 (mirror_psd P)) (Some (fmax_factor env))) slc)"
    by (simp add: Let_def)
next
  fix t pr P
  let ?freqs = "knots_to_freqs env t (oversample env) (fmax_factor env)"
  assume a: "dict_get (self_labels gp) key = Inr t \<and> dict_get (self_prior gp) key = Inr pr \<and>
      0 < cutbins env \<and> pf_call pr (tl ?freqs) ps (Some 1) = Array1 P"
  then have "fft_psd (cutbins env) (\<lambda>fs. case dict_get (self_prior gp) key of
                              Inl e \<Rightarrow> Inl e
                            | Inr pr \<Rightarrow> Inr (pf_call pr fs ps (Some 1))) ?freqs
      = Inr (Array1 (cut_psd (nat (cutbins env)) P))"
    by (intro fft_psd_cut) simp_all
  with a show "FFTBasisGP_prior_loop env kernel_set gp ps ((key, slc) # items) phi =
        FFTBasisGP_prior_loop env kernel_set gp ps items
          (kernel_set phi (psd2cov env t (Array1 (cut_psd (nat (cutbins env)) P))
             (Some (fmax_factor env))) slc)"
    by (simp add: Let_def)
qed (simp_all add: cut_psd_bins mirror_psd_def)

lemmas demo_fft_eval = demo_env_def demo_cls_def demo_spectrum_def demo_common_def
  demo_fft_self_def demo_self_def demo_kernel_set_def dict_get_def

theorem fft_prior_psd_witness:
  "FFTBasisCommonGP_construct_prior (demo_env 0) demo_cls (demo_common [1, 0, 0] [0, 1]) Map.empty
     = Inr (Array1 (mirror_psd [2, 1, 2, 3])) \<and>
   mirror_psd [2, 1, 2, 3] = [- 1, 2, 3] \<and>
   FFTBasisCommonGP_construct_prior (demo_env 2) demo_cls (demo_common [1, 0, 0] [0, 1]) Map.empty
     = Inr (Array1 (cut_psd 2 [2, 3])) \<and>
   cut_psd 2 [2, 3] = [0, 0, 3] \<and>
   FFTBasisGP_prior_loop (demo_env 0) demo_kernel_set demo_fft_self Map.empty
       [(''a'', (0, 1))] (Array1 [0, 0, 0])
     = Inr (Array1 (mirror_psd [2, 1, 2, 3])) \<and>
   FFTBasisGP_prior_loop (demo_env 2) demo_kernel_set demo_fft_self Map.empty
       [(''a'', (0, 1))] (Array1 [0, 0, 0])
     = Inr (Array1 (cut_psd 2 [2, 3]))"
proof -
  let ?self = "demo_common [1, 0, 0] [0, 1]"
  have a1: "cg_freqs ?self = Some [0, 1, 2] \<and> cg_t_knots ?self = Some [0, 1] \<and>
      cutbins (demo_env 0) = 0 \<and> 2 \<le> length [0, 1, 2 :: real] \<and>
      2 \<le> length [2, 1, 2, 3 :: real] \<and>
      pf_call (cls_prior demo_cls) (([0, 1, 2] ! 1) # [0, 1, 2]) Map.empty (Some 1)
        = Array1 [2, 1, 2, 3]"
    by (simp add: demo_fft_eval)
  have a2: "cg_freqs ?self = Some [0, 1, 2] \<and> cg_t_knots ?self = Some [0, 1] \<and>
      0 < cutbins (demo_env 2) \<and>
      pf_call (cls_prior demo_cls) (tl [0, 1, 2]) Map.empty (Some 1) = Array1 [2, 3]"
    by (simp add: demo_fft_eval)
  have a3: "dict_get (self_labels demo_fft_self) ''a'' = Inr [1] \<and>
      dict_get (self_prior demo_fft_self) ''a'' = Inr demo_spectrum \<and>
      cutbins (demo_env 0) = 0 \<and>
      2 \<le> length (knots_to_freqs (demo_env 0) [1] (oversample (demo_env 0)) (fmax_factor (demo_env 0))) \<and>
      2 \<le> length [2, 1, 2, 3 :: real] \<and>
      pf_call demo_spectrum
        ((knots_to_freqs (demo_env 0) [1] (oversample (demo_env 0)) (fmax_factor (demo_env 0)) ! 1)
         # knots_to_freqs (demo_env 0) [1] (oversample (demo_env 0)) (fmax_factor (demo_env 0)))
        Map.empty (Some 1) = Array1 [2, 1, 2, 3]"
    by (simp add: demo_fft_eval)
  have a4: "dict_get (self_labels demo_fft_self) ''a'' = Inr [1] \<and>
      dict_get (self_prior demo_fft_self) ''a'' = Inr demo_spectrum \<and>
      0 < cutbins (demo_env 2) \<and>
      pf_call demo_spectrum
        (tl (knots_to_freqs (demo_env 2) [1] (oversample (demo_env 2)) (fmax_factor (demo_env 2))))
        Map.empty (Some 1) = Array1 [2, 3]"
    by (simp add: demo_fft_eval)
  note t0 = fft_prior_psd [of ?self "demo_env 0" demo_cls Map.empty demo_fft_self "''a''"
      demo_kernel_set "(0, 1)" "[]" "Array1 [0, 0, 0]"]
  note t2 = fft_prior_psd [of ?self "demo_env 2" demo_cls Map.empty demo_fft_self "''a''"
      demo_kernel_set "(0, 1)" "[]" "Array1 [0, 0, 0]"]
  have r1: "FFTBasisCommonGP_construct_prior (demo_env 0) demo_cls ?self Map.empty
     = Inr (psd2cov (demo_env 0) [0, 1] (Array1 (mirror_psd [2, 1, 2, 3])) None)"
    by (rule t0 [THEN conjunct1, rule_format, OF a1])
  have r2: "FFTBasisCommonGP_construct_prior (demo_env 2) demo_cls ?self Map.empty
     = Inr (psd2cov (demo_env 2) [0, 1] (Array1 (cut_psd (nat (cutbins (demo_env 2))) [2, 3])) None)"
    by (rule t2 [THEN conjunct2, THEN conjunct1, rule_format, OF a2])
  have r3: "FFTBasisGP_prior_loop (demo_env 0) demo_kernel_set demo_fft_self Map.empty
       [(''a'', (0, 1))] (Array1 [0, 0, 0])
     = FFTBasisGP_prior_loop (demo_env 0) demo_kernel_set demo_fft_self Map.empty []
         (demo_kernel_set (Array1 [0, 0, 0])
            (psd2cov (demo_env 0) [1] (Array1 (mirror_psd [2, 1, 2, 3]))
               (Some (fmax_factor (demo_env 0)))) (0, 1))"
    by (rule t0 [THEN conjunct2, THEN conjunct2, THEN conjunct1, rule_format, OF a3])
  have r4: "FFTBasisGP_prior_loop (demo_env 2) demo_kernel_set demo_fft_self Map.empty
       [(''a'', (0, 1))] (Array1 [0, 0, 0])
     = FFTBasisGP_prior_loop (demo_env 2) demo_kernel_set demo_fft_self Map.empty []
         (demo_kernel_set (Array1 [0, 0, 0])
            (psd2cov (demo_env 2) [1] (Array1 (cut_psd (nat (cutbins (demo_env 2))) [2, 3]))
               (Some (fmax_factor (demo_env 2)))) (0, 1))"
    by (rule t2 [THEN conjunct2, THEN conjunct2, THEN conjunct2, THEN conjunct1, rule_format, OF a4])
  have v1: "mirror_psd [2, 1, 2, 3] = [- 1, 2, 3]" by (simp add: mirror_psd_def)
  have v2: "cut_psd 2 [2, 3] = [0, 0, 3]" by (simp add: cut_psd_def numeral_2_eq_2)
  show ?thesis
    using r1 r2 r3 r4 v1 v2 by (simp add: demo_env_def demo_kernel_set_def)
qed

text \<open>
  Claim C4 as stated fails: with the spectrum \<open>f + 1\<close> on the grid \<open>0, 1, 2\<close> and no
  cut-off bins, the PSD at the first nonzero frequency is 2, so the claim asks for \<open>-2\<close>
  in the first bin; the code puts \<open>-1\<close> there, the negative of the value at frequency 0.
\<close>

theorem fft_zero_bin_counterexample:
  "cutbins (demo_env 0) = 0 \<and>
   cg_freqs (demo_common [1, 0, 0] [0, 1]) = Some [0, 1, 2] \<and>
   pf_call (cls_prior demo_cls) [1] Map.empty (Some 1) = Array1 [2] \<and>
   pf_call (cls_prior demo_cls) [0] Map.empty (Some 1) = Array1 [1] \<and>
   FFTBasisCommonGP_construct_prior (demo_env 0) demo_cls (demo_common [1, 0, 0] [0, 1]) Map.empty
     = Inr (Array1 [- 1, 2, 3]) \<and>
   FFTBasisCommonGP_construct_prior (demo_env 0) demo_cls (demo_common [1, 0, 0] [0, 1]) Map.empty
     \<noteq> Inr (Array1 [- 2, 2, 3]) \<and>
   FFTBasisGP_prior_loop (demo_env 0) demo_kernel_set demo_fft_self Map.empty
       [(''a'', (0, 1))] (Array1 [0, 0, 0]) = Inr (Array1 [- 1, 2, 3])"
  by (simp add: demo_fft_eval FFTBasisCommonGP_construct_prior_def fft_psd_def)

section \<open>Marginalized signals and the cross-covariance of common signals\<close>







section \<open>The DMX intervals of the wideband timing model\<close>

lemma count_filter_nth:
  "int (length (filter P xs)) = (\<Sum>i < length xs. if P (xs ! i) then 1 else 0)"
proof -
  have "int (length (filter P xs)) = sum_list (map (\<lambda>x. if P x then 1 else 0) xs)"
    by (induction xs) auto
  also have "\<dots> = (\<Sum>i < length xs. if P (xs ! i) then 1 else 0)"
    by (rule sum_list_map_nth)
  finally show ?thesis .
qed

lemma count_map_filter: "length (filter id (map P xs)) = length (filter P xs)"
  by (induction xs) auto

lemma np_iadd_bool_sum:
  assumes "length which = length check" and "np_iadd_bool check which = Inr check'"
  shows "sum_list check' = sum_list check + int (length (filter id which))"
    and "length check' = length check"
proof -
  from assms have c: "check' = map2 (\<lambda>c w. c + (if w then 1 else 0)) check which"
    by (simp add: np_iadd_bool_def)
  show "length check' = length check" using c assms(1) by simp
  show "sum_list check' = sum_list check + int (length (filter id which))"
    unfolding c using assms(1)
  proof (induction check arbitrary: which)
    case Nil then show ?case by simp
  next
    case (Cons a check)
    then obtain b bs where "which = b # bs" by (cases which) auto
    with Cons show ?case by simp
  qed
qed

lemma assign_dmx_sum:
  assumes "assign_dmx psr keys self check = Inr (self', check')"
      and "length check = length (psr_stoas psr)"
  shows "sum_list check' = sum_list check +
           (\<Sum>key \<leftarrow> keys. int (length (filter (inside psr key) (psr_stoas psr)))) \<and>
         wb_ntoas self' = wb_ntoas self"
  using assms
proof (induction keys arbitrary: self check)
  case Nil then show ?case by simp
next
  case (Cons key keys)
  from Cons.prems(1) obtain dmx where d: "dict_get (psr_dmx psr) key = Inr dmx"
    by (auto split: sum.splits)
  from Cons.prems(1) d have fit: "dmx_fit dmx" by (auto split: if_splits)
  from Cons.prems(1) d fit obtain i where i: "list_index (psr_fitpars psr) key = Inr i"
    by (auto split: sum.splits)
  let ?which = "map (\<lambda>s. dmx_DMXR1 dmx \<le> s / 86400 \<and> s / 86400 < dmx_DMXR2 dmx) (psr_stoas psr)"
  from Cons.prems(1) d fit i obtain check1 where
    c1: "np_iadd_bool check ?which = Inr check1" and
    rest: "assign_dmx psr keys
             (self\<lparr>wb_dmx := wb_dmx self @ [dmx_DMX dmx], wb_dmindex := wb_dmindex self @ [i],
                   wb_dmwhich := wb_dmwhich self @ [?which]\<rparr>) check1 = Inr (self', check')"
    by (auto simp: Let_def split: sum.splits)
  have lw: "length ?which = length check" using Cons.prems(2) by simp
  note s = np_iadd_bool_sum [OF lw c1]
  have l1: "length check1 = length (psr_stoas psr)" using s(2) Cons.prems(2) by simp
  have eqP: "inside psr key = (\<lambda>s. dmx_DMXR1 dmx \<le> s / 86400 \<and> s / 86400 < dmx_DMXR2 dmx)"
    using d by (auto simp: inside_def dict_get_def fun_eq_iff split: option.splits)
  have cnt: "length (filter id ?which) = length (filter (inside psr key) (psr_stoas psr))"
    unfolding eqP by (rule count_map_filter)
  from Cons.IH [OF rest l1] s(1) cnt show ?case by simp
qed


lemma coverage_swap:
  "(\<Sum>key \<leftarrow> keys. int (length (filter (\<lambda>s. Q key s) xs))) =
   (\<Sum>i < length xs. int (length (filter (\<lambda>key. Q key (xs ! i)) keys)))"
proof (induction keys)
  case Nil then show ?case by simp
next
  case (Cons key keys)
  have "(\<Sum>i < length xs. int (length (filter (\<lambda>k. Q k (xs ! i)) (key # keys)))) =
        (\<Sum>i < length xs. (if Q key (xs ! i) then 1 else 0)
           + int (length (filter (\<lambda>k. Q k (xs ! i)) keys)))"
    by (intro sum.cong) auto
  also have "\<dots> = int (length (filter (\<lambda>s. Q key s) xs))
      + (\<Sum>i < length xs. int (length (filter (\<lambda>k. Q k (xs ! i)) keys)))"
    by (simp add: sum.distrib count_filter_nth)
  finally show ?case using Cons.IH by simp
qed

text \<open>
  What the constructor's test does ensure: when it returns, the interval counts of the
  observations add up to the number of observations.
\<close>

lemma wideband_total_coverage:
  assumes init: "WidebandTimingModel_init args psr = Inr w"
      and len: "length (psr_stoas psr) = length (psr_toas psr)"
  shows "(\<Sum>i < length (psr_stoas psr). coverage psr i) = length (psr_toas psr)"
proof -
  let ?n = "length (psr_toas psr)"
  let ?keys = "sort (dict_keys (psr_dmx psr))"
  from init obtain self3 self4 check where
    a: "assign_dmx psr ?keys self3 (replicate ?n 0) = Inr (self4, check)" and
    n3: "wb_ntoas self3 = ?n" and
    sm: "sum_list check = int (wb_ntoas self4)"
    by (auto simp: WidebandTimingModel_init_def Let_def
        split: sum.splits if_splits prod.splits)
  have l0: "length (replicate ?n (0::int)) = length (psr_stoas psr)" using len by simp
  from assign_dmx_sum [OF a l0] n3 sm
  have "(\<Sum>key \<leftarrow> ?keys. int (length (filter (inside psr key) (psr_stoas psr)))) = int ?n"
    by (simp add: sum_list_replicate)
  then have "(\<Sum>i < length (psr_stoas psr).
        int (length (filter (\<lambda>key. inside psr key (psr_stoas psr ! i)) ?keys))) = int ?n"
    using coverage_swap [of "inside psr" "psr_stoas psr" ?keys] by simp
  moreover have "length (filter (\<lambda>key. inside psr key (psr_stoas psr ! i)) ?keys) = coverage psr i"
    for i
  proof -
    have "filter (\<lambda>key. inside psr key (psr_stoas psr ! i)) ?keys =
          sort (filter (\<lambda>key. inside psr key (psr_stoas psr ! i)) (dict_keys (psr_dmx psr)))"
      by (rule filter_sort)
    then show ?thesis by (simp add: coverage_def inside_def)
  qed
  ultimately have "int (\<Sum>i < length (psr_stoas psr). coverage psr i) = int ?n" by simp
  then show ?thesis by (simp only: of_nat_eq_iff)
qed

text \<open>A constructor that returns has not found \<open>DM\<close> among the fit parameters.\<close>

lemma wideband_rejects_DM:
  "WidebandTimingModel_init args psr = Inr w \<Longrightarrow> ''DM'' \<notin> set (psr_fitpars psr)"
  by (auto simp: WidebandTimingModel_init_def Let_def split: sum.splits if_splits prod.splits)

lemmas wideband_eval = WidebandTimingModel_init_def demo_wideband_args_def overlap_psr_def
  demo_psr_def do_selection_def dict_keys_def dict_get_def Let_def py_join_def
  demo_param_def np_iadd_bool_def demo_basisfn_call

text \<open>
  Claim C6. The constructor compares the sum of the per-observation interval counts with
  the number of observations. For \<open>overlap_psr\<close> the first observation lies in both DMX
  intervals and the second in none: the counts are 2 and 0, their sum is the number of
  observations, and the constructor returns an instance instead of raising.
\<close>

theorem wideband_accepts_uncovered_observation:
  "map_sum id wb_dmwhich (WidebandTimingModel_init demo_wideband_args overlap_psr)
     = Inr [[True, False], [True, False]] \<and>
   coverage overlap_psr 0 = 2 \<and> coverage overlap_psr 1 = 0 \<and>
   ''DM'' \<notin> set (psr_fitpars overlap_psr)"
  by (simp add: wideband_eval coverage_def)

text \<open>With disjoint intervals that hold both observations the constructor succeeds as well.\<close>

lemma demo_wideband_ok:
  "map_sum id wb_dmwhich (WidebandTimingModel_init demo_wideband_args demo_psr)
     = Inr [[True, False], [False, True]]"
  by (simp add: wideband_eval)

section \<open>The marginalizing solve engine\<close>



text \<open>
  Claim C2. For a MarginalizingNmat built from a basis \<open>M\<close> with \<open>k\<close> columns and a noise
  operator, \<^verbatim>\<open>solve(r, left_array=r, logdet=True)\<close> on a vector \<open>r\<close> returns the quadratic
  form \<open>rNr - MNr . cf(MNr)\<close> together with the sum of the operator's log-determinant,
  the log-determinant of the Cholesky factor of \<open>M^T N^-1 M\<close>, and \<open>k * log(1e40)\<close>; with
  \<^verbatim>\<open>logdet=False\<close> it returns the quadratic form alone.
\<close>

theorem solve_vector_logdet:
  assumes "self = MarginalizingNmat_init M (PySolver op)"
      and "no_solve_logdet op (Array1 r) (Array1 r) = Inr (Array0 rNr, logdet_N)"
      and "no_solve op (Array1 r) (Array2 M) = Inr (Array1 mnr)"
      and "no_solve op (Array2 M) (Array2 M) = Inr MNM"
      and "cholesky MNM = Inr f"
      and "cf_call f (Array1 mnr) = Inr (Array1 x)"
      and "length x = length mnr"
  shows "solve cholesky self (i, Array1 r) (Some (i, Array1 r)) True =
           Inr (RetTuple (Array0 (rNr - (\<Sum>j < length mnr. mnr ! j * x ! j)))
                  (logdet_N + cf_logdet f + real (ncols M) * ln (10 ^ 40))) \<and>
         solve cholesky self (i, Array1 r) (Some (i, Array1 r)) False =
           Inr (Ret (Array0 (rNr - (\<Sum>j < length mnr. mnr ! j * x ! j))))"
proof -
  have d: "np_dot (Array1 mnr) (Array1 x) = Inr (Array0 (\<Sum>j < length mnr. mnr ! j * x ! j))"
    using assms(7) dotv_nth [of mnr x] by simp
  have s: "np_subtract (Array0 rNr) (Array0 (\<Sum>j < length mnr. mnr ! j * x ! j)) =
             Inr (Array0 (rNr - (\<Sum>j < length mnr. mnr ! j * x ! j)))"
    by (simp add: np_subtract_def np_binop_scalar)
  show ?thesis
    using assms(1-6) d s
    by (simp add: solve_def is_same_def MNr_def cf_def MarginalizingNmat_init_def)
qed


theorem solve_vector_logdet_witness:
  "solve demo_cholesky demo_marg (7, Array1 [1, 2, 3]) (Some (7, Array1 [1, 2, 3])) True
     = Inr (RetTuple (Array0 2) (ln 3 + ln (10 ^ 40))) \<and>
   solve demo_cholesky demo_marg (7, Array1 [1, 2, 3]) (Some (7, Array1 [1, 2, 3])) False
     = Inr (Ret (Array0 2))"
proof -
  let ?M = "Matrix 3 1 [[1], [1], [1]]"
  let ?f = "\<lparr>cf_call = (\<lambda>v. np_divide v (Array0 3)), cf_logdet = ln 3\<rparr>"
  have h1: "demo_marg = MarginalizingNmat_init ?M (PySolver identity_noise)"
    by (simp add: demo_marg_def)
  have h2: "no_solve_logdet identity_noise (Array1 [1, 2, 3]) (Array1 [1, 2, 3]) = Inr (Array0 14, 0)"
    by (simp add: identity_noise_def dotv_def)
  have h3: "no_solve identity_noise (Array1 [1, 2, 3]) (Array2 ?M) = Inr (Array1 [6])"
    by (simp add: identity_noise_def dotv_def cols_def)
  have h4: "no_solve identity_noise (Array2 ?M) (Array2 ?M) = Inr (Array2 (Matrix 1 1 [[3]]))"
    by (simp add: identity_noise_def dotv_def cols_def)
  have h5: "demo_cholesky (Array2 (Matrix 1 1 [[3]])) = Inr ?f"
    by (simp add: demo_cholesky_def)
  have h6: "cf_call ?f (Array1 [6]) = Inr (Array1 [2])"
    by (simp add: np_divide_def np_binop_def bdim_def broadcast_to2_def of_rows_def)
  have h7: "length [2::real] = length [6::real]" by simp
  from solve_vector_logdet [where cholesky = demo_cholesky and i = 7, OF h1 h2 h3 h4 h5 h6 h7]
  show ?thesis by simp
qed





end
